theory Spec2Isabelle
  imports Main "HOL-Library.Sublist"
begin

section \<open>JavaScript values, strings and thrown values\<close>

text \<open>
  The message bus is TypeScript; at run time its data are JavaScript values. The
  embedding keeps the part of the value universe the bus handles: the JSON data model
  (null, booleans, numbers, strings, arrays, objects), \<open>undefined\<close>, and \<open>Date\<close>.
  A number leaf is opaque to all the code below and is kept as an integer: the numbers
  that JSON does not write back as they are (NaN, the infinities, \<open>-0\<close>) are outside the
  embedding. An object is the list of its own enumerable properties in
  \<open>Object.entries\<close> order; a property named \<open>__proto__\<close> in that list is an own
  property of that name, as \<open>JSON.parse\<close> creates it.

  A \<open>Date\<close> holds a time value in milliseconds since the epoch, or is the
  Invalid Date (time value NaN), which \<open>new Date(x)\<close> gives for an unparsable string
  and for a number outside the range of \<open>\<plusminus>8.64e15\<close> ms.
\<close>

datatype jsdate = Date_at int | Invalid_Date

datatype jsvalue =
    JUndefined
  | JNull
  | JBool bool
  | JNum int
  | JStr string
  | JDate jsdate
  | JArr "jsvalue list"
  | JObj "(string \<times> jsvalue) list"

text \<open>
  A thrown value: an \<open>Error\<close> instance (flag: it is an \<open>EmmettError\<close> or an
  instance of one of its subclasses; its \<open>message\<close>; its numeric \<open>code\<close> property
  when it has one), any other non-nullish value (what \<open>String(e)\<close> gives, and its
  numeric \<open>code\<close>), or \<open>null\<close>/\<open>undefined\<close> (what \<open>String(e)\<close> gives).
\<close>

datatype thrown =
    JsError bool string "int option"
  | JsOther string "int option"
  | JsNullish string

fun instanceof_Error :: "thrown \<Rightarrow> bool" where
  "instanceof_Error (JsError _ _ _) = True"
| "instanceof_Error _ = False"

fun instanceof_EmmettError :: "thrown \<Rightarrow> bool" where
  "instanceof_EmmettError (JsError emmett _ _) = emmett"
| "instanceof_EmmettError _ = False"

text \<open>\<open>error instanceof Error ? error.message : String(error)\<close>, used by every catch block.\<close>

fun error_text :: "thrown \<Rightarrow> string" where
  "error_text (JsError _ msg _) = msg"
| "error_text (JsOther s _) = s"
| "error_text (JsNullish s) = s"

text \<open>\<open>new Error(msg)\<close> and \<open>new EmmettError(msg)\<close>.\<close>

definition new_Error :: "string \<Rightarrow> thrown" where
  "new_Error msg = JsError False msg None"

definition new_EmmettError :: "string \<Rightarrow> thrown" where
  "new_EmmettError msg = JsError True msg None"

text \<open>
  Strings are taken over ASCII: \<open>toLowerCase\<close> maps \<open>A\<close>..\<open>Z\<close> to \<open>a\<close>..\<open>z\<close> and
  leaves every other character alone. \<open>s.includes(sub)\<close> is the contiguous-substring
  test.
\<close>

definition toLowerCase_char :: "char \<Rightarrow> char" where
  "toLowerCase_char c =
     (let n = (of_char c :: nat) in if 65 \<le> n \<and> n \<le> 90 then char_of (n + 32) else c)"

definition toLowerCase :: "string \<Rightarrow> string" where
  "toLowerCase s = map toLowerCase_char s"

fun str_includes :: "string \<Rightarrow> string \<Rightarrow> bool" where
  "str_includes [] sub = (sub = [])"
| "str_includes (c # cs) sub = (prefix sub (c # cs) \<or> str_includes cs sub)"

section \<open>serialization.ts: the payload codec\<close>

text \<open>
  \<open>Date.prototype.toISOString\<close> (on a valid time value) and \<open>new Date(string)\<close>
  belong to the platform, not to the repository: the codec takes them as a parameter,
  and every general property below holds for each choice of them.
\<close>

record date_api =
  toISOString :: "int \<Rightarrow> string"
  new_Date :: "string \<Rightarrow> jsdate"

text \<open>
  A logical message \<open>{ type, data, metadata? }\<close>; \<open>metadata = None\<close> is a message
  object without the \<open>metadata\<close> property.
\<close>

record message =
  type :: string
  data :: jsvalue
  metadata :: "jsvalue option"

text \<open>The message as the JavaScript object it is.\<close>

definition message_object :: "message \<Rightarrow> jsvalue" where
  "message_object m =
     JObj ([(''type'', JStr (type m)), (''data'', data m)] @
           (case metadata m of None \<Rightarrow> [] | Some md \<Rightarrow> [(''metadata'', md)]))"

text \<open>
  \<open>xs.map(f)\<close> and the \<open>for\<close> loop over \<open>Object.entries\<close> run left to right and
  stop at the first element on which \<open>f\<close> throws.
\<close>

fun sequence :: "('e + 'a) list \<Rightarrow> 'e + 'a list" where
  "sequence [] = Inr []"
| "sequence (Inl e # _) = Inl e"
| "sequence (Inr x # rs) = (case sequence rs of Inl e \<Rightarrow> Inl e | Inr xs \<Rightarrow> Inr (x # xs))"

text \<open>
  \<open>toISOString\<close> throws a RangeError on the Invalid Date; that is the only way
  \<open>transformDatesToMarkers\<close> fails.

  For an object the function fills a fresh \<open>{}\<close> by \<open>result[key] = ...\<close>. For the key
  \<open>__proto__\<close> that assignment runs the setter inherited from \<open>Object.prototype\<close>: the
  value (already transformed, so a throw in it still comes out) becomes the prototype of
  \<open>result\<close>, or is ignored when it is no object, and no property is created. The result
  is read only by \<open>JSON.stringify\<close>, which writes own properties: the property is lost.
\<close>

definition RangeError_invalid_time :: thrown where
  "RangeError_invalid_time = JsError False ''Invalid time value'' None"

fun transformDatesToMarkers :: "date_api \<Rightarrow> jsvalue \<Rightarrow> thrown + jsvalue" where
  "transformDatesToMarkers api (JDate d) =
     (case d of
        Invalid_Date \<Rightarrow> Inl RangeError_invalid_time
      | Date_at t \<Rightarrow>
          Inr (JObj [(''__type'', JStr ''Date''), (''value'', JStr (toISOString api t))]))"
| "transformDatesToMarkers api (JArr xs) =
     (case sequence (map (transformDatesToMarkers api) xs) of
        Inl e \<Rightarrow> Inl e
      | Inr ys \<Rightarrow> Inr (JArr ys))"
| "transformDatesToMarkers api (JObj kvs) =
     (case sequence (map (\<lambda>(key, v). case transformDatesToMarkers api v of
                                         Inl e \<Rightarrow> Inl e
                                       | Inr w \<Rightarrow> Inr (key, w)) kvs) of
        Inl e \<Rightarrow> Inl e
      | Inr result \<Rightarrow> Inr (JObj (filter (\<lambda>(key, w). key \<noteq> ''__proto__'') result)))"
| "transformDatesToMarkers api obj = Inr obj"

text \<open>
  \<open>isDateMarker\<close>: \<open>typeof value === 'object' && value !== null\<close> holds of objects,
  arrays and Dates; of these only an object can have the properties \<open>__type\<close> and
  \<open>value\<close>. Objects have no duplicate property names, so the lookup is \<open>map_of\<close>.
\<close>

definition isDateMarker :: "jsvalue \<Rightarrow> bool" where
  "isDateMarker v =
     (case v of
        JObj kvs \<Rightarrow>
          (case map_of kvs ''__type'' of
             None \<Rightarrow> False
           | Some t \<Rightarrow>
               t = JStr ''Date'' \<and>
               (case map_of kvs ''value'' of Some (JStr _) \<Rightarrow> True | _ \<Rightarrow> False))
      | _ \<Rightarrow> False)"

definition dateReviver :: "date_api \<Rightarrow> string \<Rightarrow> jsvalue \<Rightarrow> jsvalue" where
  "dateReviver api key v =
     (if isDateMarker v
      then (case v of
              JObj kvs \<Rightarrow> (case map_of kvs ''value'' of
                             Some (JStr s) \<Rightarrow> JDate (new_Date api s)
                           | _ \<Rightarrow> v)
            | _ \<Rightarrow> v)
      else v)"

definition getMessageKind :: "message \<Rightarrow> string" where
  "getMessageKind m =
     (let typeStr = toLowerCase (type m)
      in if str_includes typeStr ''command'' then ''command'' else ''event'')"

text \<open>
  The bytes of a \<open>Buffer\<close> are kept as what \<open>JSON.parse\<close> makes of their text: the JSON
  document they spell, or, for a text that is not JSON, the message of the SyntaxError
  that \<open>JSON.parse\<close> raises on it.

  \<open>JSON.stringify\<close>, read as the document its output spells: a property whose value is
  \<open>undefined\<close> is left out, \<open>undefined\<close> in an array becomes \<open>null\<close>, a Date is
  written through its \<open>toJSON\<close>; the result is \<open>undefined\<close> (\<open>None\<close>) for
  \<open>undefined\<close> itself.
\<close>

datatype buffer = Json_text jsvalue | Bad_text string

fun JSON_stringify :: "date_api \<Rightarrow> jsvalue \<Rightarrow> jsvalue option" where
  "JSON_stringify api JUndefined = None"
| "JSON_stringify api (JDate d) =
     Some (case d of Invalid_Date \<Rightarrow> JNull | Date_at t \<Rightarrow> JStr (toISOString api t))"
| "JSON_stringify api (JArr xs) =
     Some (JArr (map (\<lambda>x. case JSON_stringify api x of None \<Rightarrow> JNull | Some d \<Rightarrow> d) xs))"
| "JSON_stringify api (JObj kvs) =
     Some (JObj (concat (map (\<lambda>(key, v). case JSON_stringify api v of
                                              None \<Rightarrow> []
                                            | Some d \<Rightarrow> [(key, d)]) kvs)))"
| "JSON_stringify api v = Some v"

text \<open>
  \<open>JSON.parse(text, reviver)\<close> on a document: the reviver is applied bottom-up, to
  every element and property value after its own children, and last to the root. The
  name handed to the reviver is the property name; for an array element it is the index,
  which the one reviver of this module does not read and which is left empty here.
\<close>

fun JSON_parse_reviver ::
  "(string \<Rightarrow> jsvalue \<Rightarrow> jsvalue) \<Rightarrow> string \<Rightarrow> jsvalue \<Rightarrow> jsvalue" where
  "JSON_parse_reviver reviver name (JArr xs) =
     reviver name (JArr (map (JSON_parse_reviver reviver []) xs))"
| "JSON_parse_reviver reviver name (JObj kvs) =
     reviver name (JObj (map (\<lambda>(key, v). (key, JSON_parse_reviver reviver key v)) kvs))"
| "JSON_parse_reviver reviver name v = reviver name v"

text \<open>
  \<open>serialize\<close> reads the clock and draws a UUID; both are inputs here (\<open>now\<close> is the
  time value of \<open>new Date()\<close>, which is never invalid). \<open>Buffer.from\<close> of a string
  cannot fail; \<open>JSON.stringify\<close> of an object is a string.
\<close>

definition serialize :: "date_api \<Rightarrow> int \<Rightarrow> string \<Rightarrow> message \<Rightarrow> thrown + buffer" where
  "serialize api now uuid m =
     (let kind = getMessageKind m in
      case transformDatesToMarkers api (data m) of
        Inl e \<Rightarrow> Inl e
      | Inr d \<Rightarrow>
          (case (case metadata m of
                   Some md \<Rightarrow> transformDatesToMarkers api md
                 | None \<Rightarrow> Inr JUndefined) of
             Inl e \<Rightarrow> Inl e
           | Inr md \<Rightarrow>
               (let envelope = JObj [(''type'', JStr (type m)),
                                     (''kind'', JStr kind),
                                     (''data'', d),
                                     (''metadata'', md),
                                     (''timestamp'', JStr (toISOString api now)),
                                     (''messageId'', JStr uuid)]
                in case JSON_stringify api envelope of
                     Some json \<Rightarrow> Inr (Json_text json)
                   | None \<Rightarrow> Inl (JsError False ''Buffer.from(undefined)'' None))))"

text \<open>
  Reading \<open>type\<close>, \<open>data\<close> or \<open>metadata\<close> off the parsed envelope: a TypeError on
  \<open>null\<close> and \<open>undefined\<close>, the property of an object, and \<open>undefined\<close> on anything
  else (no built-in prototype has these names).
\<close>

definition get_property :: "jsvalue \<Rightarrow> string \<Rightarrow> thrown + jsvalue" where
  "get_property v name =
     (case v of
        JNull \<Rightarrow>
          Inl (JsError False (''Cannot read properties of null (reading '' @ name @ '')'') None)
      | JUndefined \<Rightarrow>
          Inl (JsError False (''Cannot read properties of undefined (reading '' @ name @ '')'') None)
      | JObj kvs \<Rightarrow> Inr (case map_of kvs name of Some x \<Rightarrow> x | None \<Rightarrow> JUndefined)
      | _ \<Rightarrow> Inr JUndefined)"

fun truthy :: "jsvalue \<Rightarrow> bool" where
  "truthy JUndefined = False"
| "truthy JNull = False"
| "truthy (JBool b) = b"
| "truthy (JNum n) = (n \<noteq> 0)"
| "truthy (JStr s) = (s \<noteq> [])"
| "truthy _ = True"

text \<open>The body of the \<open>try\<close> block of \<open>deserialize\<close>, then its \<open>catch\<close>.\<close>

definition deserialize_try :: "date_api \<Rightarrow> buffer \<Rightarrow> thrown + jsvalue" where
  "deserialize_try api buf =
     (case buf of
        Bad_text detail \<Rightarrow> Inl (JsError False detail None)
      | Json_text json \<Rightarrow>
          (let envelope = JSON_parse_reviver (dateReviver api) [] json in
           case get_property envelope ''type'' of
             Inl e \<Rightarrow> Inl e
           | Inr t \<Rightarrow>
               (case get_property envelope ''data'' of
                  Inl e \<Rightarrow> Inl e
                | Inr d \<Rightarrow>
                    (case get_property envelope ''metadata'' of
                       Inl e \<Rightarrow> Inl e
                     | Inr md \<Rightarrow>
                         Inr (JObj ([(''type'', t), (''data'', d)] @
                                    (if truthy md then [(''metadata'', md)] else [])))))))"

definition deserialize :: "date_api \<Rightarrow> buffer \<Rightarrow> thrown + jsvalue" where
  "deserialize api buf =
     (case deserialize_try api buf of
        Inr m \<Rightarrow> Inr m
      | Inl error \<Rightarrow> Inl (new_Error (''Failed to deserialize message: '' @ error_text error)))"

text \<open>
  For concrete runs the Date API is fixed on the instants that occur in them, with
  their real ISO strings; every other string parses to the Invalid Date here.
\<close>

definition iso_table :: date_api where
  "iso_table =
     \<lparr> toISOString = (\<lambda>t. if t = 1705312800000 then ''2024-01-15T10:00:00.000Z''
                          else ''1970-01-01T00:00:00.000Z''),
       new_Date = (\<lambda>s. if s = ''2024-01-15T10:00:00.000Z'' then Date_at 1705312800000
                       else if s = ''1970-01-01T00:00:00.000Z'' then Date_at 0
                       else Invalid_Date) \<rparr>"

text \<open>
  What a tree must satisfy to come back unchanged: it holds no \<open>undefined\<close>, every Date
  in it is valid and is given back by the platform from its own ISO string, no object in
  it passes \<open>isDateMarker\<close> (has \<open>__type\<close> equal to \<open>'Date'\<close> and a string \<open>value\<close>,
  whatever else it has), and no object in it has an own property named \<open>__proto__\<close>.
\<close>

fun codec_safe :: "date_api \<Rightarrow> jsvalue \<Rightarrow> bool" where
  "codec_safe api JUndefined = False"
| "codec_safe api (JDate d) =
     (case d of Invalid_Date \<Rightarrow> False
              | Date_at t \<Rightarrow> new_Date api (toISOString api t) = Date_at t)"
| "codec_safe api (JArr xs) = (\<forall>x \<in> set xs. codec_safe api x)"
| "codec_safe api (JObj kvs) =
     (\<not> isDateMarker (JObj kvs) \<and>
      (\<forall>(key, v) \<in> set kvs. key \<noteq> ''__proto__'' \<and> codec_safe api v))"
| "codec_safe api v = True"

fun marker_free :: "jsvalue \<Rightarrow> bool" where
  "marker_free (JArr xs) = (\<forall>x \<in> set xs. marker_free x)"
| "marker_free (JObj kvs) =
     (\<not> isDateMarker (JObj kvs) \<and> (\<forall>(key, v) \<in> set kvs. marker_free v))"
| "marker_free v = True"

text \<open>The property names of an object; \<open>None\<close> for a value that is not an object.\<close>

definition object_keys :: "jsvalue \<Rightarrow> string list option" where
  "object_keys v = (case v of JObj kvs \<Rightarrow> Some (map fst kvs) | _ \<Rightarrow> None)"

text \<open>
  One subtree on its way through the wire: \<open>wire api name v v'\<close> says that \<open>v\<close>,
  sent as the value of property \<open>name\<close>, is transformed without a throw, is written
  by \<open>JSON.stringify\<close>, and is read back by \<open>JSON.parse\<close> with the reviver as
  \<open>v'\<close>. \<open>revived_property\<close> is what the receiver finds under \<open>name\<close> for a
  transformed value \<open>w\<close>: \<open>undefined\<close> when \<open>JSON.stringify\<close> left the property out.
\<close>

definition wire :: "date_api \<Rightarrow> string \<Rightarrow> jsvalue \<Rightarrow> jsvalue \<Rightarrow> bool" where
  "wire api name v v' \<longleftrightarrow>
     (\<exists>w j. transformDatesToMarkers api v = Inr w \<and> JSON_stringify api w = Some j \<and>
            JSON_parse_reviver (dateReviver api) name j = v')"

definition revived_property :: "date_api \<Rightarrow> string \<Rightarrow> jsvalue \<Rightarrow> jsvalue" where
  "revived_property api name w =
     (case JSON_stringify api w of
        None \<Rightarrow> JUndefined
      | Some j \<Rightarrow> JSON_parse_reviver (dateReviver api) name j)"

text \<open>\<open>deserialize(serialize(m))\<close>.\<close>

definition deserialize_serialize :: "date_api \<Rightarrow> int \<Rightarrow> string \<Rightarrow> message \<Rightarrow> thrown + jsvalue" where
  "deserialize_serialize api now uuid m =
     (case serialize api now uuid m of Inl e \<Rightarrow> Inl e | Inr buf \<Rightarrow> deserialize api buf)"

text \<open>A message with Dates nested in arrays and objects, for concrete runs.\<close>

definition nested_dates_message :: message where
  "nested_dates_message =
     \<lparr> type = ''AddProductItem'',
       data = JObj [(''productId'', JStr ''123''), (''quantity'', JNum 2),
                    (''items'', JArr [JObj [(''addedAt'', JDate (Date_at 1705312800000)),
                                           (''tags'', JArr [JNull, JBool True])]])],
       metadata = Some (JObj [(''issuedAt'', JDate (Date_at 0))]) \<rparr>"

section \<open>messageHandler.ts: error classification\<close>

datatype ack_result = Ack | Nack

definition shouldRetry :: "thrown \<Rightarrow> bool" where
  "shouldRetry error =
     (if \<not> instanceof_Error error then True
      else
        let errorMessage = toLowerCase (error_text error) in
        if str_includes errorMessage ''network'' \<or>
           str_includes errorMessage ''timeout'' \<or>
           str_includes errorMessage ''econnrefused'' \<or>
           str_includes errorMessage ''enotfound'' \<or>
           str_includes errorMessage ''unavailable''
        then True
        else if instanceof_EmmettError error then False
        else if str_includes errorMessage ''validation'' \<or>
                str_includes errorMessage ''invalid'' \<or>
                str_includes errorMessage ''not found'' \<or>
                str_includes errorMessage ''already exists''
        then False
        else True)"

text \<open>The two marker families of the classification, for stating its properties.\<close>

definition network_markers :: "string list" where
  "network_markers = [''network'', ''timeout'', ''econnrefused'', ''enotfound'', ''unavailable'']"

definition business_markers :: "string list" where
  "business_markers = [''validation'', ''invalid'', ''not found'', ''already exists'']"

definition message_has :: "string list \<Rightarrow> thrown \<Rightarrow> bool" where
  "message_has markers e =
     (instanceof_Error e \<and> (\<exists>m \<in> set markers. str_includes (toLowerCase (error_text e)) m))"

text \<open>A name (of a message type) that contains one of the markers, in any letter case.\<close>

definition names_marker :: "string list \<Rightarrow> string \<Rightarrow> bool" where
  "names_marker markers name = (\<exists>m \<in> set markers. str_includes (toLowerCase name) m)"

text \<open>
  A marker \<open>m\<close> that cannot reach into a text \<open>pre name c post\<close> from outside the name:
  it holds neither a blank nor \<open>c\<close> and occurs neither in \<open>pre\<close> nor in \<open>post\<close>.
\<close>

definition marker_apart :: "string \<Rightarrow> string \<Rightarrow> char \<Rightarrow> string \<Rightarrow> bool" where
  "marker_apart pre post c m \<longleftrightarrow>
     CHR '' '' \<notin> set m \<and> c \<notin> set m \<and> m \<noteq> [] \<and>
     \<not> str_includes pre m \<and> \<not> str_includes post m"

section \<open>messageHandler.ts: dispatch of an inbound message\<close>

text \<open>
  A handler is an asynchronous callback that the dispatcher awaits: on the message it
  is given it either resolves (\<open>None\<close>) or rejects with a thrown value, and it may act
  on the state \<open>'s\<close> of whatever it works with. Besides the ack/nack decision the
  dispatch functions return the positions (in the registered list) of the handlers they
  invoked, in the order of invocation, and the state the handlers left.
\<close>

type_synonym 's handler = "jsvalue \<Rightarrow> 's \<Rightarrow> thrown option \<times> 's"

text \<open>The body of the \<open>try\<close> block of \<open>handleCommandMessage\<close>: what it throws, if anything.\<close>

definition handleCommandMessage_try ::
  "date_api \<Rightarrow> buffer \<Rightarrow> (string \<rightharpoonup> 's handler list) \<Rightarrow> string \<Rightarrow> 's
     \<Rightarrow> thrown option \<times> nat list \<times> 's" where
  "handleCommandMessage_try api message_data handlers commandType w =
     (case handlers commandType of
        None \<Rightarrow>
          (Some (new_EmmettError (''No handler registered for command '' @ commandType @ ''!'')),
           [], w)
      | Some commandHandlers \<Rightarrow>
          if length commandHandlers = 0
          then (Some (new_EmmettError
                        (''No handler registered for command '' @ commandType @ ''!'')), [], w)
          else if length commandHandlers > 1
          then (Some (new_EmmettError
                        (''Multiple handlers registered for command '' @ commandType @ ''. '' @
                         ''Commands must have exactly one handler.'')), [], w)
          else (case deserialize api message_data of
                  Inl e \<Rightarrow> (Some e, [], w)
                | Inr command \<Rightarrow>
                    (case (commandHandlers ! 0) command w of
                       (r, w') \<Rightarrow> (r, [0], w'))))"

definition handleCommandMessage ::
  "date_api \<Rightarrow> buffer \<Rightarrow> (string \<rightharpoonup> 's handler list) \<Rightarrow> string \<Rightarrow> 's
     \<Rightarrow> ack_result \<times> nat list \<times> 's" where
  "handleCommandMessage api message_data handlers commandType w =
     (case handleCommandMessage_try api message_data handlers commandType w of
        (None, invoked, w') \<Rightarrow> (Ack, invoked, w')
      | (Some error, invoked, w') \<Rightarrow>
          (if shouldRetry error then Nack else Ack, invoked, w'))"

text \<open>
  The \<open>for\<close> loop of \<open>handleEventMessage\<close> over the handlers from position \<open>i\<close> on.
\<close>

fun run_event_handlers ::
  "'s handler list \<Rightarrow> nat \<Rightarrow> jsvalue \<Rightarrow> 's \<Rightarrow> ack_result \<times> nat list \<times> 's" where
  "run_event_handlers [] i event w = (Ack, [], w)"
| "run_event_handlers (handler # rest) i event w =
     (case handler event w of
        (None, w') \<Rightarrow>
          (case run_event_handlers rest (Suc i) event w' of
             (r, invoked, w'') \<Rightarrow> (r, i # invoked, w''))
      | (Some error, w') \<Rightarrow>
          if shouldRetry error then (Nack, [i], w')
          else (case run_event_handlers rest (Suc i) event w' of
                  (r, invoked, w'') \<Rightarrow> (r, i # invoked, w'')))"

definition handleEventMessage ::
  "date_api \<Rightarrow> buffer \<Rightarrow> (string \<rightharpoonup> 's handler list) \<Rightarrow> string \<Rightarrow> 's
     \<Rightarrow> ack_result \<times> nat list \<times> 's" where
  "handleEventMessage api message_data handlers eventType w =
     (case handlers eventType of
        None \<Rightarrow> (Ack, [], w)
      | Some eventHandlers \<Rightarrow>
          if length eventHandlers = 0 then (Ack, [], w)
          else (case deserialize api message_data of
                  Inl error \<Rightarrow> (if shouldRetry error then Nack else Ack, [], w)
                | Inr event \<Rightarrow> run_event_handlers eventHandlers 0 event w))"

text \<open>
  For stating what the walk does: the state in which the handler at position \<open>k\<close> runs
  when the handlers before it have run one after the other, what that handler then
  answers, and whether an answer is a failure classified retriable.
\<close>

definition state_before :: "'s handler list \<Rightarrow> jsvalue \<Rightarrow> 's \<Rightarrow> nat \<Rightarrow> 's" where
  "state_before hs event w k = fold (\<lambda>h s. snd (h event s)) (take k hs) w"

definition outcome_at :: "'s handler list \<Rightarrow> jsvalue \<Rightarrow> 's \<Rightarrow> nat \<Rightarrow> thrown option" where
  "outcome_at hs event w k = fst ((hs ! k) event (state_before hs event w k))"

definition retriable_failure :: "thrown option \<Rightarrow> bool" where
  "retriable_failure outcome = (case outcome of None \<Rightarrow> False | Some e \<Rightarrow> shouldRetry e)"

text \<open>
  Handlers for concrete runs: the state is the list of the names of the handlers that
  have run; the handler adds its name and answers with the given outcome.
\<close>

definition logging_handler :: "string \<Rightarrow> thrown option \<Rightarrow> string list handler" where
  "logging_handler name outcome = (\<lambda>event log. (outcome, log @ [name]))"

text \<open>The payload of an event as \<open>serialize\<close> writes it, for concrete runs.\<close>

definition item_added_payload :: buffer where
  "item_added_payload =
     Json_text (JObj [(''type'', JStr ''ProductItemAdded''), (''kind'', JStr ''event''),
                      (''data'', JObj [(''productId'', JStr ''123'')]),
                      (''timestamp'', JStr ''2024-01-15T10:00:00.000Z''),
                      (''messageId'', JStr ''0b7e'')])"

text \<open>
  A payload that is not JSON (the text \<open>invalid json\<close>), with the message of the
  SyntaxError that \<open>JSON.parse\<close> of V8 raises on it.
\<close>

definition invalid_json_payload :: buffer where
  "invalid_json_payload =
     Bad_text (''Unexpected token '' @ [CHR 0x27] @ ''i'' @ [CHR 0x27] @ '', '' @ [CHR 0x22] @
               ''invalid json'' @ [CHR 0x22] @ '' is not valid JSON'')"

definition item_added_event :: jsvalue where
  "item_added_event =
     JObj [(''type'', JStr ''ProductItemAdded''), (''data'', JObj [(''productId'', JStr ''123'')])]"

section \<open>topicManager.ts: names and provisioning\<close>

definition getCommandTopicName :: "string \<Rightarrow> string \<Rightarrow> string" where
  "getCommandTopicName commandType pfx = pfx @ ''-cmd-'' @ commandType"

definition getEventTopicName :: "string \<Rightarrow> string \<Rightarrow> string" where
  "getEventTopicName eventType pfx = pfx @ ''-evt-'' @ eventType"

definition getCommandSubscriptionName :: "string \<Rightarrow> string \<Rightarrow> string \<Rightarrow> string" where
  "getCommandSubscriptionName commandType instanceId pfx =
     pfx @ ''-cmd-'' @ commandType @ ''-'' @ instanceId"

definition getEventSubscriptionName :: "string \<Rightarrow> string \<Rightarrow> string \<Rightarrow> string" where
  "getEventSubscriptionName eventType subscriptionId pfx =
     pfx @ ''-evt-'' @ eventType @ ''-'' @ subscriptionId"

text \<open>
  \<open>SubscriptionOptions\<close>, and the \<open>config\<close> object built from it: a property is
  copied when its value is truthy (a number other than 0, a non-empty string, an
  object). Backoffs are kept as their \<open>seconds\<close>.
\<close>

record RetryPolicy =
  minimumBackoff :: "int option"
  maximumBackoff :: "int option"

record DeadLetterPolicy =
  deadLetterTopic :: "string option"
  maxDeliveryAttempts :: "int option"

record SubscriptionOptions =
  ackDeadlineSeconds :: "int option"
  retryPolicy :: "RetryPolicy option"
  deadLetterPolicy :: "DeadLetterPolicy option"

definition truthy_number :: "int option \<Rightarrow> int option" where
  "truthy_number n = (case n of Some k \<Rightarrow> if k \<noteq> 0 then Some k else None | None \<Rightarrow> None)"

definition truthy_string :: "string option \<Rightarrow> string option" where
  "truthy_string s = (case s of Some t \<Rightarrow> if t \<noteq> [] then Some t else None | None \<Rightarrow> None)"

definition subscription_config :: "SubscriptionOptions option \<Rightarrow> SubscriptionOptions" where
  "subscription_config opts =
     (case opts of
        None \<Rightarrow> \<lparr> ackDeadlineSeconds = None, retryPolicy = None, deadLetterPolicy = None \<rparr>
      | Some ops \<Rightarrow>
          \<lparr> ackDeadlineSeconds = truthy_number (ackDeadlineSeconds ops),
            retryPolicy =
              map_option (\<lambda>p. \<lparr> minimumBackoff = minimumBackoff p,
                                 maximumBackoff = maximumBackoff p \<rparr>) (retryPolicy ops),
            deadLetterPolicy =
              map_option (\<lambda>p. \<lparr> deadLetterTopic = truthy_string (deadLetterTopic p),
                                 maxDeliveryAttempts = truthy_number (maxDeliveryAttempts p) \<rparr>)
                (deadLetterPolicy ops) \<rparr>)"

text \<open>
  The Pub/Sub client is an external collaborator. Its remote calls are a parameter:
  each acts on the remote state \<open>'r\<close> and resolves or rejects with a thrown value.
  \<open>pubsub.topic(name)\<close> and \<open>topic.subscription(name)\<close> only build local handles,
  which are kept here as the names themselves.
\<close>

record 'r PubSub =
  topic_exists :: "string \<Rightarrow> 'r \<Rightarrow> (thrown + bool) \<times> 'r"
  topic_create :: "string \<Rightarrow> 'r \<Rightarrow> thrown option \<times> 'r"
  topic_publishMessage :: "string \<Rightarrow> buffer \<Rightarrow> (string \<times> string) list \<Rightarrow> 'r \<Rightarrow> thrown option \<times> 'r"
  subscription_exists :: "string \<Rightarrow> string \<Rightarrow> 'r \<Rightarrow> (thrown + bool) \<times> 'r"
  subscription_create ::
    "string \<Rightarrow> string \<Rightarrow> SubscriptionOptions \<Rightarrow> 'r \<Rightarrow> thrown option \<times> 'r"

text \<open>
  \<open>createError.code\<close>: the numeric code of the thrown value if it has one; reading a
  property of \<open>null\<close> or \<open>undefined\<close> is itself a TypeError.
\<close>

fun error_code :: "thrown \<Rightarrow> thrown + int option" where
  "error_code (JsError _ _ c) = Inr c"
| "error_code (JsOther _ c) = Inr c"
| "error_code (JsNullish s) =
     Inl (JsError False (''Cannot read properties of '' @ s @ '' (reading code)'') None)"

text \<open>The inner \<open>catch (createError)\<close> of both provisioning functions.\<close>

definition catch_createError :: "thrown \<Rightarrow> thrown option" where
  "catch_createError createError =
     (case error_code createError of
        Inl typeError \<Rightarrow> Some typeError
      | Inr c \<Rightarrow> if c \<noteq> Some 6 then Some createError else None)"

definition getOrCreateTopic_try :: "'r PubSub \<Rightarrow> string \<Rightarrow> 'r \<Rightarrow> (thrown + string) \<times> 'r" where
  "getOrCreateTopic_try pubsub topicName r =
     (case topic_exists pubsub topicName r of
        (Inl e, r1) \<Rightarrow> (Inl e, r1)
      | (Inr exists, r1) \<Rightarrow>
          if \<not> exists
          then (case topic_create pubsub topicName r1 of
                  (None, r2) \<Rightarrow> (Inr topicName, r2)
                | (Some createError, r2) \<Rightarrow>
                    (case catch_createError createError of
                       Some e \<Rightarrow> (Inl e, r2)
                     | None \<Rightarrow> (Inr topicName, r2)))
          else (Inr topicName, r1))"

definition getOrCreateTopic :: "'r PubSub \<Rightarrow> string \<Rightarrow> 'r \<Rightarrow> (thrown + string) \<times> 'r" where
  "getOrCreateTopic pubsub topicName r =
     (case getOrCreateTopic_try pubsub topicName r of
        (Inr topic, r') \<Rightarrow> (Inr topic, r')
      | (Inl error, r') \<Rightarrow>
          (Inl (new_Error (''Failed to get or create topic '' @ topicName @ '': '' @
                           error_text error)), r'))"

definition getOrCreateSubscription_try ::
  "'r PubSub \<Rightarrow> string \<Rightarrow> string \<Rightarrow> SubscriptionOptions option \<Rightarrow> 'r
     \<Rightarrow> (thrown + string) \<times> 'r" where
  "getOrCreateSubscription_try pubsub topic subscriptionName opts r =
     (case subscription_exists pubsub topic subscriptionName r of
        (Inl e, r1) \<Rightarrow> (Inl e, r1)
      | (Inr exists, r1) \<Rightarrow>
          if \<not> exists
          then (let config = subscription_config opts
                in case subscription_create pubsub topic subscriptionName config r1 of
                     (None, r2) \<Rightarrow> (Inr subscriptionName, r2)
                   | (Some createError, r2) \<Rightarrow>
                       (case catch_createError createError of
                          Some e \<Rightarrow> (Inl e, r2)
                        | None \<Rightarrow> (Inr subscriptionName, r2)))
          else (Inr subscriptionName, r1))"

definition getOrCreateSubscription ::
  "'r PubSub \<Rightarrow> string \<Rightarrow> string \<Rightarrow> SubscriptionOptions option \<Rightarrow> 'r
     \<Rightarrow> (thrown + string) \<times> 'r" where
  "getOrCreateSubscription pubsub topic subscriptionName opts r =
     (case getOrCreateSubscription_try pubsub topic subscriptionName opts r of
        (Inr subscription, r') \<Rightarrow> (Inr subscription, r')
      | (Inl error, r') \<Rightarrow>
          (Inl (new_Error (''Failed to get or create subscription '' @ subscriptionName @ '': '' @
                           error_text error)), r'))"

text \<open>
  A client for concrete runs: its remote state is the list of the calls it has received,
  it knows no topic and no subscription, and every creation succeeds.
\<close>

definition recording_client :: "string list PubSub" where
  "recording_client =
     \<lparr> topic_exists = (\<lambda>name r. (Inr False, r @ [''topic.exists '' @ name])),
       topic_create = (\<lambda>name r. (None, r @ [''topic.create '' @ name])),
       topic_publishMessage = (\<lambda>name buf attrs r. (None, r @ [''topic.publishMessage '' @ name])),
       subscription_exists = (\<lambda>topic name r. (Inr False, r @ [''subscription.exists '' @ name])),
       subscription_create =
         (\<lambda>topic name config r. (None, r @ [''subscription.create '' @ name])) \<rparr>"

text \<open>
  A client on which every call is rejected with the given value; its remote state
  counts the calls.
\<close>

definition rejecting_client :: "thrown \<Rightarrow> thrown \<Rightarrow> bool \<Rightarrow> nat PubSub" where
  "rejecting_client exists_error create_error exists_fails =
     \<lparr> topic_exists =
         (\<lambda>name r. (if exists_fails then Inl exists_error else Inr False, Suc r)),
       topic_create = (\<lambda>name r. (Some create_error, Suc r)),
       topic_publishMessage = (\<lambda>name buf attrs r. (Some create_error, Suc r)),
       subscription_exists =
         (\<lambda>topic name r. (if exists_fails then Inl exists_error else Inr False, Suc r)),
       subscription_create = (\<lambda>topic name config r. (Some create_error, Suc r)) \<rparr>"

section \<open>scheduler.ts\<close>

text \<open>
  \<open>afterInMs\<close> is kept as a whole number of milliseconds. \<open>new Date(t)\<close> clips: a time
  value beyond \<open>\<plusminus>8.64e15\<close> gives the Invalid Date. Comparing two Dates with \<open><=\<close> or
  \<open>>\<close> compares their time values as numbers, and every comparison with NaN is false.
\<close>

datatype ScheduleOptions = AfterInMs int | At jsdate

record ScheduledMessage =
  message :: message
  options :: "ScheduleOptions option"

record ScheduledMessageInfo = ScheduledMessage +
  scheduledAt :: jsdate

definition TimeClip :: "int \<Rightarrow> jsdate" where
  "TimeClip t = (if \<bar>t\<bar> \<le> 8640000000000000 then Date_at t else Invalid_Date)"

fun date_le :: "jsdate \<Rightarrow> jsdate \<Rightarrow> bool" where
  "date_le (Date_at a) (Date_at b) = (a \<le> b)"
| "date_le _ _ = False"

fun date_gt :: "jsdate \<Rightarrow> jsdate \<Rightarrow> bool" where
  "date_gt (Date_at a) (Date_at b) = (a > b)"
| "date_gt _ _ = False"

text \<open>\<open>now\<close> is the time value of \<open>new Date()\<close> at the call.\<close>

definition calculateScheduledTime :: "int \<Rightarrow> ScheduleOptions option \<Rightarrow> jsdate" where
  "calculateScheduledTime now opts =
     (case opts of
        None \<Rightarrow> Date_at now
      | Some (AfterInMs ms) \<Rightarrow> TimeClip (now + ms)
      | Some (At d) \<Rightarrow> d)"

definition filterReadyMessages ::
  "ScheduledMessageInfo list \<Rightarrow> jsdate \<Rightarrow> ScheduledMessageInfo list" where
  "filterReadyMessages pending now = filter (\<lambda>msg. date_le (scheduledAt msg) now) pending"

text \<open>The fields of a \<open>MessageScheduler\<close> (the client is passed to its methods).\<close>

record MessageScheduler =
  pendingMessages :: "ScheduledMessageInfo list"
  useEmulator :: bool
  topicPrefix :: string
  scheduledTopic :: "string option"

definition new_MessageScheduler :: "bool \<Rightarrow> string option \<Rightarrow> string option \<Rightarrow> MessageScheduler" where
  "new_MessageScheduler emulator topic pfx =
     \<lparr> pendingMessages = [], useEmulator = emulator,
       topicPrefix = (case pfx of Some p \<Rightarrow> p | None \<Rightarrow> ''emmett''),
       scheduledTopic = topic \<rparr>"

text \<open>
  \<open>publishScheduledMessage\<close>: the body of its \<open>try\<close> block, which keeps the topic
  handle it has made even when a later step throws, then the whole method.
\<close>

definition publishScheduledMessage_try ::
  "date_api \<Rightarrow> 'r PubSub \<Rightarrow> int \<Rightarrow> string \<Rightarrow> message \<Rightarrow> jsdate \<Rightarrow> MessageScheduler \<Rightarrow> 'r
     \<Rightarrow> (thrown option \<times> MessageScheduler) \<times> 'r" where
  "publishScheduledMessage_try api pubsub now uuid msg at s r =
     (let topicName = (case scheduledTopic s of
                         Some t \<Rightarrow> t
                       | None \<Rightarrow> topicPrefix s @ ''-scheduled-messages'');
          s1 = s\<lparr> scheduledTopic := Some topicName \<rparr>;
          ensured = (case scheduledTopic s of
                       Some t \<Rightarrow> (None, r)
                     | None \<Rightarrow>
                         (case topic_exists pubsub topicName r of
                            (Inl e, r1) \<Rightarrow> (Some e, r1)
                          | (Inr exists, r1) \<Rightarrow>
                              if \<not> exists then topic_create pubsub topicName r1 else (None, r1)))
      in case ensured of
           (Some e, r2) \<Rightarrow> ((Some e, s1), r2)
         | (None, r2) \<Rightarrow>
             (case serialize api now uuid msg of
                Inl e \<Rightarrow> ((Some e, s1), r2)
              | Inr buf \<Rightarrow>
                  (case at of
                     Invalid_Date \<Rightarrow> ((Some RangeError_invalid_time, s1), r2)
                   | Date_at t \<Rightarrow>
                       (case topic_publishMessage pubsub topicName buf
                               [(''messageType'', type msg), (''publishTime'', toISOString api t)] r2 of
                          (outcome, r3) \<Rightarrow> ((outcome, s1), r3)))))"

definition publishScheduledMessage ::
  "date_api \<Rightarrow> 'r PubSub \<Rightarrow> int \<Rightarrow> string \<Rightarrow> message \<Rightarrow> jsdate \<Rightarrow> MessageScheduler \<Rightarrow> 'r
     \<Rightarrow> (thrown option \<times> MessageScheduler) \<times> 'r" where
  "publishScheduledMessage api pubsub now uuid msg at s r =
     (case publishScheduledMessage_try api pubsub now uuid msg at s r of
        ((None, s'), r') \<Rightarrow> ((None, s'), r')
      | ((Some error, s'), r') \<Rightarrow>
          ((Some (new_Error (''Failed to publish scheduled message '' @ type msg @ '': '' @
                             error_text error)), s'), r'))"

definition schedule ::
  "date_api \<Rightarrow> 'r PubSub \<Rightarrow> int \<Rightarrow> string \<Rightarrow> message \<Rightarrow> ScheduleOptions option
     \<Rightarrow> MessageScheduler \<Rightarrow> 'r \<Rightarrow> (thrown option \<times> MessageScheduler) \<times> 'r" where
  "schedule api pubsub now uuid msg opts s r =
     (let at = calculateScheduledTime now opts
      in if useEmulator s
         then ((None, s\<lparr> pendingMessages :=
                          pendingMessages s @
                          [\<lparr> message = msg, options = opts, scheduledAt = at \<rparr>] \<rparr>), r)
         else publishScheduledMessage api pubsub now uuid msg at s r)"

definition dequeue :: "int \<Rightarrow> MessageScheduler \<Rightarrow> ScheduledMessage list \<times> MessageScheduler" where
  "dequeue now s =
     (if \<not> useEmulator s then ([], s)
      else
        let ready = filterReadyMessages (pendingMessages s) (Date_at now);
            s' = s\<lparr> pendingMessages :=
                      filter (\<lambda>msg. date_gt (scheduledAt msg) (Date_at now)) (pendingMessages s) \<rparr>
        in (map (\<lambda>info. \<lparr> message = message info, options = options info \<rparr>) ready, s'))"

definition getPendingCount :: "MessageScheduler \<Rightarrow> nat" where
  "getPendingCount s = (if useEmulator s then length (pendingMessages s) else 0)"

text \<open>A message without Dates, for concrete runs.\<close>

definition reminder :: message where
  "reminder = \<lparr> type = ''Reminder'', data = JObj [], metadata = None \<rparr>"

section \<open>pubsubMessageBus.ts: the bus\<close>

datatype message_kind = Command | Event

definition kind_name :: "message_kind \<Rightarrow> string" where
  "kind_name kind = (case kind of Command \<Rightarrow> ''command'' | Event \<Rightarrow> ''event'')"

record bus_config =
  instanceId :: string
  topicPrefix :: string
  autoCreateResources :: bool

text \<open>
  The state closed over by \<open>getPubSubMessageBus\<close>. \<open>handle\<close> and \<open>subscribe\<close> start
  \<open>createSubscriptionForType\<close> without awaiting it when the bus is started; such a
  detached call (its type, kind and subscription id) is recorded in \<open>detached\<close>. Its
  failure is only logged. \<open>generateUUID\<close> is a parameter of \<open>subscribe\<close>: the
  \<open>n\<close>-th UUID drawn is \<open>uuid n\<close>, and \<open>uuids_drawn\<close> counts the draws. \<open>start()\<close> and
  \<open>close()\<close>, which set and clear \<open>started\<close>, are outside this development.
\<close>

record 'h message_bus =
  handlers :: "string \<rightharpoonup> 'h list"
  subscriptionHandlers :: "string \<rightharpoonup> 'h"
  eventSubscriptionIds :: "string \<rightharpoonup> string list"
  commandTypes :: "string set"
  eventTypes :: "string set"
  started :: bool
  detached :: "(string \<times> message_kind \<times> string option) list"
  uuids_drawn :: nat

definition getPubSubMessageBus :: "'h message_bus" where
  "getPubSubMessageBus =
     \<lparr> handlers = Map.empty, subscriptionHandlers = Map.empty,
       eventSubscriptionIds = Map.empty, commandTypes = {}, eventTypes = {},
       started = False, detached = [], uuids_drawn = 0 \<rparr>"

definition ensureStarted :: "'h message_bus \<Rightarrow> thrown option" where
  "ensureStarted bus =
     (if \<not> started bus
      then Some (new_Error
             ''Message bus is not started. Call start() before sending/publishing messages.'')
      else None)"

text \<open>
  \<open>handle\<close>: the loop over the command type names. A \<open>throw\<close> leaves the loop; what
  the earlier rounds did to the state stays done.
\<close>

fun handle :: "'h \<Rightarrow> string list \<Rightarrow> 'h message_bus \<Rightarrow> thrown option \<times> 'h message_bus" where
  "handle commandHandler [] bus = (None, bus)"
| "handle commandHandler (commandType # rest) bus =
     (if handlers bus commandType \<noteq> None
      then (Some (new_EmmettError
                    (''Handler already registered for command '' @ commandType @ ''. '' @
                     ''Commands must have exactly one handler.'')), bus)
      else
        let bus1 = bus\<lparr> commandTypes := insert commandType (commandTypes bus) \<rparr>;
            bus2 = bus1\<lparr> handlers := (handlers bus1)(commandType \<mapsto> [commandHandler]) \<rparr>;
            bus3 = (if started bus2
                    then bus2\<lparr> detached := detached bus2 @ [(commandType, Command, None)] \<rparr>
                    else bus2)
        in handle commandHandler rest bus3)"

fun subscribe ::
  "(nat \<Rightarrow> string) \<Rightarrow> 'h \<Rightarrow> string list \<Rightarrow> 'h message_bus \<Rightarrow> thrown option \<times> 'h message_bus" where
  "subscribe uuid eventHandler [] bus = (None, bus)"
| "subscribe uuid eventHandler (eventType # rest) bus =
     (let bus1 = bus\<lparr> eventTypes := insert eventType (eventTypes bus) \<rparr>;
          subscriptionId = uuid (uuids_drawn bus1);
          bus2 = bus1\<lparr> uuids_drawn := Suc (uuids_drawn bus1) \<rparr>;
          bus3 = bus2\<lparr> subscriptionHandlers :=
                          (subscriptionHandlers bus2)(subscriptionId \<mapsto> eventHandler) \<rparr>;
          existing = (case handlers bus3 eventType of Some hs \<Rightarrow> hs | None \<Rightarrow> []);
          bus4 = bus3\<lparr> handlers := (handlers bus3)(eventType \<mapsto> existing @ [eventHandler]) \<rparr>;
          existingIds = (case eventSubscriptionIds bus4 eventType of Some ids \<Rightarrow> ids | None \<Rightarrow> []);
          bus5 = bus4\<lparr> eventSubscriptionIds :=
                          (eventSubscriptionIds bus4)(eventType \<mapsto> existingIds @ [subscriptionId]) \<rparr>;
          bus6 = (if started bus5
                  then bus5\<lparr> detached :=
                                detached bus5 @ [(eventType, Event, Some subscriptionId)] \<rparr>
                  else bus5)
      in subscribe uuid eventHandler rest bus6)"

text \<open>The body of the \<open>try\<close> block of \<open>publishMessage\<close>, then the whole function.\<close>

definition publishMessage_try ::
  "date_api \<Rightarrow> 'r PubSub \<Rightarrow> bus_config \<Rightarrow> int \<Rightarrow> string \<Rightarrow> string \<Rightarrow> message \<Rightarrow> message_kind
     \<Rightarrow> 'r \<Rightarrow> thrown option \<times> 'r" where
  "publishMessage_try api pubsub config now uuid topicName msg kind r =
     (case topic_exists pubsub topicName r of
        (Inl e, r1) \<Rightarrow> (Some e, r1)
      | (Inr exists, r1) \<Rightarrow>
          (case (if \<not> autoCreateResources config
                 then (if \<not> exists
                       then (Some (new_Error (''Topic '' @ topicName @
                               '' does not exist and autoCreateResources is disabled'')), r1)
                       else (None, r1))
                 else (if \<not> exists then topic_create pubsub topicName r1 else (None, r1))) of
             (Some e, r2) \<Rightarrow> (Some e, r2)
           | (None, r2) \<Rightarrow>
               (case serialize api now uuid msg of
                  Inl e \<Rightarrow> (Some e, r2)
                | Inr buf \<Rightarrow>
                    topic_publishMessage pubsub topicName buf
                      [(''messageType'', type msg), (''messageKind'', kind_name kind)] r2)))"

definition publishMessage ::
  "date_api \<Rightarrow> 'r PubSub \<Rightarrow> bus_config \<Rightarrow> int \<Rightarrow> string \<Rightarrow> 'h message_bus \<Rightarrow> message
     \<Rightarrow> message_kind \<Rightarrow> 'r \<Rightarrow> thrown option \<times> 'r" where
  "publishMessage api pubsub config now uuid bus msg kind r =
     (case ensureStarted bus of
        Some e \<Rightarrow> (Some e, r)
      | None \<Rightarrow>
          (let topicName = (case kind of
                              Command \<Rightarrow> getCommandTopicName (type msg) (topicPrefix config)
                            | Event \<Rightarrow> getEventTopicName (type msg) (topicPrefix config))
           in case publishMessage_try api pubsub config now uuid topicName msg kind r of
                (None, r') \<Rightarrow> (None, r')
              | (Some error, r') \<Rightarrow>
                  (Some (new_Error (''Failed to publish '' @ kind_name kind @ '' '' @ type msg @
                                    '' to topic '' @ topicName @ '': '' @ error_text error)), r')))"

definition send ::
  "date_api \<Rightarrow> 'r PubSub \<Rightarrow> bus_config \<Rightarrow> int \<Rightarrow> string \<Rightarrow> 'h message_bus \<Rightarrow> message
     \<Rightarrow> 'r \<Rightarrow> thrown option \<times> 'r" where
  "send api pubsub config now uuid bus command r =
     publishMessage api pubsub config now uuid bus command Command r"

definition publish ::
  "date_api \<Rightarrow> 'r PubSub \<Rightarrow> bus_config \<Rightarrow> int \<Rightarrow> string \<Rightarrow> 'h message_bus \<Rightarrow> message
     \<Rightarrow> 'r \<Rightarrow> thrown option \<times> 'r" where
  "publish api pubsub config now uuid bus event r =
     publishMessage api pubsub config now uuid bus event Event r"

section \<open>Properties of the codec\<close>

lemma dateReviver_leaf [simp]:
  "dateReviver api k JUndefined = JUndefined"
  "dateReviver api k JNull = JNull"
  "dateReviver api k (JBool b) = JBool b"
  "dateReviver api k (JNum n) = JNum n"
  "dateReviver api k (JStr s) = JStr s"
  "dateReviver api k (JDate d) = JDate d"
  "dateReviver api k (JArr xs) = JArr xs"
  by (simp_all add: dateReviver_def isDateMarker_def)

lemma dateReviver_object:
  "\<not> isDateMarker (JObj kvs) \<Longrightarrow> dateReviver api k (JObj kvs) = JObj kvs"
  by (simp add: dateReviver_def)

lemma dateReviver_marker:
  "isDateMarker v \<Longrightarrow> \<exists>kvs s. v = JObj kvs \<and> map_of kvs ''value'' = Some (JStr s) \<and>
     dateReviver api k v = JDate (new_Date api s)"
  by (auto simp: dateReviver_def isDateMarker_def split: jsvalue.splits option.splits)

lemma sequence_map_Inr: "sequence (map Inr ys) = Inr ys"
  by (induction ys) auto

lemma sequence_Inr_D: "sequence rs = Inr ys \<Longrightarrow> rs = map Inr ys"
proof (induction rs arbitrary: ys)
  case Nil
  then show ?case by auto
next
  case (Cons r rs)
  then show ?case by (cases r) (auto split: sum.splits)
qed

lemma transform_undefined_iff:
  "transformDatesToMarkers api v = Inr JUndefined \<longleftrightarrow> v = JUndefined"
  by (cases v) (auto split: sum.splits jsdate.splits)

lemma stringify_None_iff: "JSON_stringify api w = None \<longleftrightarrow> w = JUndefined"
  by (cases w) auto

lemma safe_array:
  assumes "\<forall>x \<in> set xs. wire api [] x x"
  shows "\<exists>ws. sequence (map (transformDatesToMarkers api) xs) = Inr ws \<and>
     map (JSON_parse_reviver (dateReviver api) [])
       (map (\<lambda>x. case JSON_stringify api x of None \<Rightarrow> JNull | Some d \<Rightarrow> d) ws) = xs"
  using assms
proof (induction xs)
  case Nil
  then show ?case by simp
next
  case (Cons x xs)
  then obtain ws where ws: "sequence (map (transformDatesToMarkers api) xs) = Inr ws"
    "map (JSON_parse_reviver (dateReviver api) [])
       (map (\<lambda>x. case JSON_stringify api x of None \<Rightarrow> JNull | Some d \<Rightarrow> d) ws) = xs"
    by auto
  from Cons.prems obtain w j where w: "transformDatesToMarkers api x = Inr w"
    "JSON_stringify api w = Some j" "JSON_parse_reviver (dateReviver api) [] j = x"
    by (auto simp: wire_def)
  show ?case using ws w by simp
qed

lemma safe_object:
  assumes "\<forall>(k, v) \<in> set kvs. k \<noteq> ''__proto__'' \<and> wire api k v v"
  shows "\<exists>ws. sequence (map (\<lambda>(key, v). case transformDatesToMarkers api v of
                                         Inl e \<Rightarrow> Inl e
                                       | Inr w \<Rightarrow> Inr (key, w)) kvs) = Inr ws \<and>
     map (\<lambda>(key, v). (key, JSON_parse_reviver (dateReviver api) key v))
       (concat (map (\<lambda>(key, v). case JSON_stringify api v of
                                              None \<Rightarrow> []
                                            | Some d \<Rightarrow> [(key, d)])
                 (filter (\<lambda>(key, w). key \<noteq> ''__proto__'') ws))) = kvs"
  using assms
proof (induction kvs)
  case Nil
  then show ?case by simp
next
  case (Cons kv kvs)
  obtain k v where kv: "kv = (k, v)" by (cases kv)
  from Cons obtain ws where ws: "sequence (map (\<lambda>(key, v). case transformDatesToMarkers api v of
                                         Inl e \<Rightarrow> Inl e
                                       | Inr w \<Rightarrow> Inr (key, w)) kvs) = Inr ws"
    "map (\<lambda>(key, v). (key, JSON_parse_reviver (dateReviver api) key v))
       (concat (map (\<lambda>(key, v). case JSON_stringify api v of
                                              None \<Rightarrow> []
                                            | Some d \<Rightarrow> [(key, d)])
                 (filter (\<lambda>(key, w). key \<noteq> ''__proto__'') ws))) = kvs"
    by auto
  from Cons.prems kv obtain w j where w: "transformDatesToMarkers api v = Inr w"
    "JSON_stringify api w = Some j" "JSON_parse_reviver (dateReviver api) k j = v"
    and nk: "k \<noteq> ''__proto__''"
    by (auto simp: wire_def)
  show ?case using ws w kv nk by simp
qed

lemma codec_safe_wire: "codec_safe api v \<Longrightarrow> wire api name v v"
proof (induction v arbitrary: name)
  case (JDate d)
  then show ?case
    by (cases d) (auto simp: wire_def dateReviver_def isDateMarker_def)
next
  case (JArr xs)
  then have "\<forall>x \<in> set xs. wire api [] x x" by auto
  from safe_array [OF this] show ?case
    by (auto simp: wire_def)
next
  case (JObj kvs)
  then have "\<forall>(k, v) \<in> set kvs. k \<noteq> ''__proto__'' \<and> wire api k v v" by fastforce
  from safe_object [OF this] JObj.prems show ?case
    by (auto simp: wire_def dateReviver_object)
qed (auto simp: wire_def)

lemma sequence_Cons_Inr:
  "sequence (r # rs) = Inr ys \<longleftrightarrow> (\<exists>y ys'. r = Inr y \<and> sequence rs = Inr ys' \<and> ys = y # ys')"
  by (cases r) (auto split: sum.splits)

lemma stringify_length:
  "length (concat (map (\<lambda>(key, v). case JSON_stringify api v of
                                              None \<Rightarrow> []
                                            | Some d \<Rightarrow> [(key, d)])
                 (filter (\<lambda>(key, w). key \<noteq> ''__proto__'') ws))) \<le> length ws"
  by (induction ws) (auto split: option.splits)

lemma sequence_length: "sequence rs = Inr ys \<Longrightarrow> length ys = length rs"
  by (drule sequence_Inr_D) simp

lemma wire_array:
  assumes "sequence (map (transformDatesToMarkers api) xs) = Inr ws"
    and "map (JSON_parse_reviver (dateReviver api) [])
       (map (\<lambda>x. case JSON_stringify api x of None \<Rightarrow> JNull | Some d \<Rightarrow> d) ws) = xs"
  shows "\<forall>x \<in> set xs. wire api [] x x"
  using assms
proof (induction xs arbitrary: ws)
  case Nil
  then show ?case by simp
next
  case (Cons x xs)
  from Cons.prems(1) obtain w ws' where w: "ws = w # ws'" "transformDatesToMarkers api x = Inr w"
    "sequence (map (transformDatesToMarkers api) xs) = Inr ws'"
    by (auto simp: sequence_Cons_Inr)
  from Cons.prems(2) w have tl: "map (JSON_parse_reviver (dateReviver api) [])
       (map (\<lambda>x. case JSON_stringify api x of None \<Rightarrow> JNull | Some d \<Rightarrow> d) ws') = xs"
    and hd: "JSON_parse_reviver (dateReviver api) []
       (case JSON_stringify api w of None \<Rightarrow> JNull | Some d \<Rightarrow> d) = x"
    by auto
  have "wire api [] x x"
  proof (cases "JSON_stringify api w")
    case None
    then have "w = JUndefined" by (simp add: stringify_None_iff)
    with w have "x = JUndefined" by (simp add: transform_undefined_iff)
    with hd None show ?thesis by simp
  next
    case (Some j)
    with hd w show ?thesis by (auto simp: wire_def)
  qed
  with Cons.IH [OF w(3) tl] show ?case by simp
qed

lemma wire_object:
  assumes "sequence (map (\<lambda>(key, v). case transformDatesToMarkers api v of
                                         Inl e \<Rightarrow> Inl e
                                       | Inr w \<Rightarrow> Inr (key, w)) kvs) = Inr ws"
    and "map (\<lambda>(key, v). (key, JSON_parse_reviver (dateReviver api) key v))
       (concat (map (\<lambda>(key, v). case JSON_stringify api v of
                                              None \<Rightarrow> []
                                            | Some d \<Rightarrow> [(key, d)])
                 (filter (\<lambda>(key, w). key \<noteq> ''__proto__'') ws))) = kvs"
  shows "\<forall>(k, v) \<in> set kvs. k \<noteq> ''__proto__'' \<and> wire api k v v"
  using assms
proof (induction kvs arbitrary: ws)
  case Nil
  then show ?case by simp
next
  case (Cons kv kvs)
  obtain k v where kv: "kv = (k, v)" by (cases kv)
  from Cons.prems(1) kv obtain w ws' where w: "ws = (k, w) # ws'"
    "transformDatesToMarkers api v = Inr w"
    "sequence (map (\<lambda>(key, v). case transformDatesToMarkers api v of
                                         Inl e \<Rightarrow> Inl e
                                       | Inr w \<Rightarrow> Inr (key, w)) kvs) = Inr ws'"
    by (auto split: sum.splits)
  define rest where "rest =
     concat (map (\<lambda>(key, v). case JSON_stringify api v of
                                              None \<Rightarrow> []
                                            | Some d \<Rightarrow> [(key, d)])
                 (filter (\<lambda>(key, w). key \<noteq> ''__proto__'') ws'))"
  have len: "length rest \<le> length kvs"
    using stringify_length [of api ws'] sequence_length [OF w(3)] by (simp add: rest_def)
  have short: False
    if "map (\<lambda>(key, v). (key, JSON_parse_reviver (dateReviver api) key v)) rest = kv # kvs"
  proof -
    from that have "length (map (\<lambda>(key, v). (key, JSON_parse_reviver (dateReviver api) key v)) rest)
       = length (kv # kvs)" by (rule arg_cong)
    with len show False by simp
  qed
  show ?case
  proof (cases "k = ''__proto__''")
    case True
    with Cons.prems(2) w(1) have
      "map (\<lambda>(key, v). (key, JSON_parse_reviver (dateReviver api) key v)) rest = kv # kvs"
      by (simp add: rest_def)
    with short show ?thesis by blast
  next
    case False
    show ?thesis
    proof (cases "JSON_stringify api w")
      case None
      with Cons.prems(2) w(1) False have
        "map (\<lambda>(key, v). (key, JSON_parse_reviver (dateReviver api) key v)) rest = kv # kvs"
        by (simp add: rest_def)
      with short show ?thesis by blast
    next
      case (Some j)
      with Cons.prems(2) w(1) kv False
      have hd: "JSON_parse_reviver (dateReviver api) k j = v"
        and tl: "map (\<lambda>(key, v). (key, JSON_parse_reviver (dateReviver api) key v)) rest = kvs"
        by (auto simp: rest_def)
      from hd w(2) Some have "wire api k v v" by (auto simp: wire_def)
      with Cons.IH [OF w(3) tl [unfolded rest_def]] kv False show ?thesis by simp
    qed
  qed
qed

lemma wire_codec_safe: "wire api name v v \<Longrightarrow> codec_safe api v"
proof (induction v arbitrary: name)
  case JUndefined
  then show ?case by (simp add: wire_def)
next
  case (JDate d)
  then show ?case
    by (cases d) (auto simp: wire_def dateReviver_def isDateMarker_def)
next
  case (JArr xs)
  from JArr.prems obtain ws where ws: "sequence (map (transformDatesToMarkers api) xs) = Inr ws"
    "map (JSON_parse_reviver (dateReviver api) [])
       (map (\<lambda>x. case JSON_stringify api x of None \<Rightarrow> JNull | Some d \<Rightarrow> d) ws) = xs"
    by (auto simp: wire_def split: sum.splits)
  from wire_array [OF ws] JArr.IH show ?case by auto
next
  case (JObj kvs)
  from JObj.prems obtain ws where ws: "sequence (map (\<lambda>(key, v). case transformDatesToMarkers api v of
                                         Inl e \<Rightarrow> Inl e
                                       | Inr w \<Rightarrow> Inr (key, w)) kvs) = Inr ws"
    and rev: "dateReviver api name (JObj (map (\<lambda>(key, v). (key, JSON_parse_reviver (dateReviver api) key v))
       (concat (map (\<lambda>(key, v). case JSON_stringify api v of
                                              None \<Rightarrow> []
                                            | Some d \<Rightarrow> [(key, d)])
                 (filter (\<lambda>(key, w). key \<noteq> ''__proto__'') ws))))) = JObj kvs"
    by (auto simp: wire_def split: sum.splits)
  let ?obj = "JObj (map (\<lambda>(key, v). (key, JSON_parse_reviver (dateReviver api) key v))
       (concat (map (\<lambda>(key, v). case JSON_stringify api v of
                                              None \<Rightarrow> []
                                            | Some d \<Rightarrow> [(key, d)])
                 (filter (\<lambda>(key, w). key \<noteq> ''__proto__'') ws))))"
  have nm: "\<not> isDateMarker ?obj"
  proof
    assume "isDateMarker ?obj"
    from dateReviver_marker [OF this, of api name] rev show False by auto
  qed
  with rev have eq: "?obj = JObj kvs" by (simp add: dateReviver_object)
  then have "map (\<lambda>(key, v). (key, JSON_parse_reviver (dateReviver api) key v))
       (concat (map (\<lambda>(key, v). case JSON_stringify api v of
                                              None \<Rightarrow> []
                                            | Some d \<Rightarrow> [(key, d)])
                 (filter (\<lambda>(key, w). key \<noteq> ''__proto__'') ws))) = kvs" by simp
  from wire_object [OF ws this]
  have "\<forall>(k, v) \<in> set kvs. k \<noteq> ''__proto__'' \<and> wire api k v v" .
  with JObj.IH have "\<forall>(k, v) \<in> set kvs. k \<noteq> ''__proto__'' \<and> codec_safe api v"
    by fastforce
  with nm eq show ?case by simp
qed simp_all

lemma codec_safe_marker_free: "codec_safe api v \<Longrightarrow> marker_free v"
  by (induction v) (auto split: jsdate.splits)

lemma deserialize_serialize_Inl:
  "transformDatesToMarkers api (data m) = Inl e \<Longrightarrow> deserialize_serialize api now uuid m = Inl e"
  by (simp add: deserialize_serialize_def serialize_def)

lemma deserialize_serialize_Inr:
  assumes "transformDatesToMarkers api (data m) = Inr d"
    and "(case metadata m of Some md \<Rightarrow> transformDatesToMarkers api md | None \<Rightarrow> Inr JUndefined) = Inr mdw"
  shows "deserialize_serialize api now uuid m =
     Inr (JObj ([(''type'', JStr (type m)), (''data'', revived_property api ''data'' d)] @
                (if truthy (revived_property api ''metadata'' mdw)
                 then [(''metadata'', revived_property api ''metadata'' mdw)] else [])))"
proof (cases "JSON_stringify api d")
  case None
  show ?thesis
  proof (cases "JSON_stringify api mdw")
    case None
    with \<open>JSON_stringify api d = None\<close> assms show ?thesis
      by (simp add: deserialize_serialize_def serialize_def deserialize_def deserialize_try_def
          revived_property_def dateReviver_def isDateMarker_def get_property_def)
  next
    case (Some mj)
    with \<open>JSON_stringify api d = None\<close> assms show ?thesis
      by (simp add: deserialize_serialize_def serialize_def deserialize_def deserialize_try_def
          revived_property_def dateReviver_def isDateMarker_def get_property_def)
  qed
next
  case (Some dj)
  show ?thesis
  proof (cases "JSON_stringify api mdw")
    case None
    with \<open>JSON_stringify api d = Some dj\<close> assms show ?thesis
      by (simp add: deserialize_serialize_def serialize_def deserialize_def deserialize_try_def
          revived_property_def dateReviver_def isDateMarker_def get_property_def)
  next
    case (Some mj)
    with \<open>JSON_stringify api d = Some dj\<close> assms show ?thesis
      by (simp add: deserialize_serialize_def serialize_def deserialize_def deserialize_try_def
          revived_property_def dateReviver_def isDateMarker_def get_property_def)
  qed
qed


lemma wire_revived_property:
  "wire api name v v \<Longrightarrow> \<exists>w. transformDatesToMarkers api v = Inr w \<and> revived_property api name w = v"
  by (auto simp: wire_def revived_property_def)

lemma revived_property_wire:
  "transformDatesToMarkers api v = Inr w \<Longrightarrow> revived_property api name w = v \<Longrightarrow>
     v = JUndefined \<or> wire api name v v"
  by (cases "JSON_stringify api w") (auto simp: wire_def revived_property_def)

lemma deserialize_keys:
  "deserialize api buf = Inr obj \<Longrightarrow>
     object_keys obj = Some [''type'', ''data''] \<or>
     object_keys obj = Some [''type'', ''data'', ''metadata'']"
  by (auto simp: deserialize_def deserialize_try_def object_keys_def Let_def
      split: buffer.splits sum.splits if_splits)

text \<open>
  The data \<open>{"__proto__": {"a": 1}, "b": 2}\<close>, as \<open>JSON.parse\<close> makes it, comes back as
  \<open>{b: 2}\<close>.
\<close>

lemma proto_property_lost:
  "deserialize_serialize iso_table 0 ''0b7e''
     \<lparr> type = ''T'',
       data = JObj [(''__proto__'', JObj [(''a'', JNum 1)]), (''b'', JNum 2)],
       metadata = None \<rparr>
   = Inr (JObj [(''type'', JStr ''T''), (''data'', JObj [(''b'', JNum 2)])])"
  by code_simp

text \<open>
  C2 (as stated, refuted). The claim is made for every message. A message whose data
  holds an ordinary object of the shape \<open>{__type: 'Date', value: <string>}\<close> does not
  come back equal: the reviver turns that object into a Date.
\<close>

theorem C2_counterexample:
  "deserialize_serialize iso_table 0 ''0b7e''
     \<lparr> type = ''OrderPlaced'',
       data = JObj [(''placedAt'', JObj [(''__type'', JStr ''Date''),
                                        (''value'', JStr ''2024-01-15T10:00:00.000Z'')])],
       metadata = None \<rparr>
   = Inr (JObj [(''type'', JStr ''OrderPlaced''),
               (''data'', JObj [(''placedAt'', JDate (Date_at 1705312800000))])]) \<and>
   deserialize_serialize iso_table 0 ''0b7e''
     \<lparr> type = ''OrderPlaced'',
       data = JObj [(''placedAt'', JObj [(''__type'', JStr ''Date''),
                                        (''value'', JStr ''2024-01-15T10:00:00.000Z'')])],
       metadata = None \<rparr>
   \<noteq> Inr (message_object
       \<lparr> type = ''OrderPlaced'',
         data = JObj [(''placedAt'', JObj [(''__type'', JStr ''Date''),
                                          (''value'', JStr ''2024-01-15T10:00:00.000Z'')])],
         metadata = None \<rparr>)"
  by code_simp

text \<open>
  C2 (amended). For every message whose \<open>data\<close> and \<open>metadata\<close> trees are built from
  JSON values and arbitrarily nested valid Dates (each given back by the platform from
  its own ISO string), hold no \<open>undefined\<close>, no object that passes \<open>isDateMarker\<close> (one
  with \<open>__type\<close> equal to \<open>'Date'\<close> and a string \<open>value\<close>, whatever other properties it
  has) and no object with an own property named \<open>__proto__\<close>, and whose \<open>metadata\<close>,
  when present, is truthy, \<open>deserialize(serialize(m))\<close> is the object
  \<open>{type, data, metadata?}\<close> equal to \<open>m\<close>, Dates being Dates again. Whatever
  \<open>deserialize\<close> returns has exactly the properties \<open>type\<close>, \<open>data\<close> and, possibly,
  \<open>metadata\<close>: neither \<open>timestamp\<close> nor \<open>messageId\<close>.
\<close>

theorem C2_roundtrip:
  "(codec_safe api (data m) \<and>
    (case metadata m of None \<Rightarrow> True | Some md \<Rightarrow> codec_safe api md \<and> truthy md)
      \<longrightarrow> deserialize_serialize api now uuid m = Inr (message_object m)) \<and>
   (\<forall>buf obj. deserialize api buf = Inr obj \<longrightarrow>
      (object_keys obj = Some [''type'', ''data''] \<or>
       object_keys obj = Some [''type'', ''data'', ''metadata'']) \<and>
      (\<exists>keys. object_keys obj = Some keys \<and>
         ''timestamp'' \<notin> set keys \<and> ''messageId'' \<notin> set keys))"
proof (intro conjI impI allI)
  assume safe: "codec_safe api (data m) \<and>
    (case metadata m of None \<Rightarrow> True | Some md \<Rightarrow> codec_safe api md \<and> truthy md)"
  then obtain d where d: "transformDatesToMarkers api (data m) = Inr d"
    "revived_property api ''data'' d = data m"
    using wire_revived_property [OF codec_safe_wire] by blast
  show "deserialize_serialize api now uuid m = Inr (message_object m)"
  proof (cases "metadata m")
    case None
    have "revived_property api ''metadata'' JUndefined = JUndefined"
      by (simp add: revived_property_def)
    with deserialize_serialize_Inr [of api m d JUndefined now uuid] d None show ?thesis
      by (simp add: message_object_def)
  next
    case (Some md)
    with safe have "codec_safe api md" "truthy md" by auto
    then obtain mdw where mdw: "transformDatesToMarkers api md = Inr mdw"
      "revived_property api ''metadata'' mdw = md"
      using wire_revived_property [OF codec_safe_wire] by blast
    with deserialize_serialize_Inr [of api m d mdw now uuid] d Some \<open>truthy md\<close> show ?thesis
      by (simp add: message_object_def)
  qed
next
  fix buf obj
  assume "deserialize api buf = Inr obj"
  from deserialize_keys [OF this]
  show "object_keys obj = Some [''type'', ''data''] \<or>
       object_keys obj = Some [''type'', ''data'', ''metadata'']" .
next
  fix buf obj
  assume "deserialize api buf = Inr obj"
  from deserialize_keys [OF this]
  show "\<exists>keys. object_keys obj = Some keys \<and>
         ''timestamp'' \<notin> set keys \<and> ''messageId'' \<notin> set keys"
    by auto
qed

theorem C2_roundtrip_witness:
  "codec_safe iso_table (data nested_dates_message) \<and>
   (case metadata nested_dates_message of None \<Rightarrow> True
    | Some md \<Rightarrow> codec_safe iso_table md \<and> truthy md) \<and>
   deserialize_serialize iso_table 1705312800000 ''0b7e'' nested_dates_message
     = Inr (message_object nested_dates_message) \<and>
   deserialize iso_table
     (Json_text (JObj [(''type'', JStr ''T''), (''kind'', JStr ''event''), (''data'', JNum 1),
                       (''timestamp'', JStr ''2024-01-15T10:00:00.000Z''),
                       (''messageId'', JStr ''0b7e'')]))
     = Inr (JObj [(''type'', JStr ''T''), (''data'', JNum 1)]) \<and>
   object_keys (JObj [(''type'', JStr ''T''), (''data'', JNum 1)]) = Some [''type'', ''data'']"
proof -
  have h: "codec_safe iso_table (data nested_dates_message) \<and>
   (case metadata nested_dates_message of None \<Rightarrow> True
    | Some md \<Rightarrow> codec_safe iso_table md \<and> truthy md)"
    by code_simp
  have d: "deserialize iso_table
     (Json_text (JObj [(''type'', JStr ''T''), (''kind'', JStr ''event''), (''data'', JNum 1),
                       (''timestamp'', JStr ''2024-01-15T10:00:00.000Z''),
                       (''messageId'', JStr ''0b7e'')]))
     = Inr (JObj [(''type'', JStr ''T''), (''data'', JNum 1)])"
    by code_simp
  from C2_roundtrip [of iso_table nested_dates_message 1705312800000 "''0b7e''"] h
  have r: "deserialize_serialize iso_table 1705312800000 ''0b7e'' nested_dates_message
     = Inr (message_object nested_dates_message)"
    by blast
  from C2_roundtrip [of iso_table nested_dates_message 1705312800000 "''0b7e''"] d
  have k: "object_keys (JObj [(''type'', JStr ''T''), (''data'', JNum 1)]) = Some [''type'', ''data''] \<or>
       object_keys (JObj [(''type'', JStr ''T''), (''data'', JNum 1)])
         = Some [''type'', ''data'', ''metadata'']"
    by blast
  have k': "object_keys (JObj [(''type'', JStr ''T''), (''data'', JNum 1)]) = Some [''type'', ''data'']"
    by (simp add: object_keys_def)
  from h d r k' show ?thesis by blast
qed

lemma roundtrip_safe:
  assumes "deserialize_serialize api now uuid m = Inr (message_object m)"
  shows "(data m = JUndefined \<or> codec_safe api (data m)) \<and>
         (\<forall>md. metadata m = Some md \<longrightarrow> codec_safe api md \<and> truthy md)"
proof -
  from assms obtain d where d: "transformDatesToMarkers api (data m) = Inr d"
    by (cases "transformDatesToMarkers api (data m)") (auto simp: deserialize_serialize_Inl)
  from assms d obtain mdw where mdw:
    "(case metadata m of Some md \<Rightarrow> transformDatesToMarkers api md | None \<Rightarrow> Inr JUndefined) = Inr mdw"
    by (cases "case metadata m of Some md \<Rightarrow> transformDatesToMarkers api md | None \<Rightarrow> Inr JUndefined")
      (auto simp: deserialize_serialize_def serialize_def)
  note eq = assms [unfolded deserialize_serialize_Inr [OF d mdw] message_object_def]
  from eq have "revived_property api ''data'' d = data m" by simp
  from revived_property_wire [OF d this] have 1: "data m = JUndefined \<or> codec_safe api (data m)"
    by (auto dest: wire_codec_safe)
  have 2: "codec_safe api md \<and> truthy md" if md: "metadata m = Some md" for md
  proof -
    from mdw md have t: "transformDatesToMarkers api md = Inr mdw" by simp
    from eq md have r: "revived_property api ''metadata'' mdw = md" and tr: "truthy md"
      by (auto split: if_splits)
    from revived_property_wire [OF t r] tr show ?thesis
      by (auto dest: wire_codec_safe)
  qed
  from 1 2 show ?thesis by blast
qed

text \<open>
  C10. The reviver turns every value that passes \<open>isDateMarker\<close> into a Date, in
  particular every object \<open>{__type: 'Date', value: s}\<close>, whatever its origin. So a
  message whose data holds such an object as ordinary data under a key \<open>k\<close> (other than
  \<open>__proto__\<close>, a property that does not reach the wire) comes back with a Date in its
  place, and a message that does come back equal has no marker-shaped object anywhere in
  its data or metadata.
\<close>

theorem C10_marker_revived:
  "(isDateMarker v \<longrightarrow> (\<exists>d. dateReviver api key v = JDate d)) \<and>
   dateReviver api key (JObj [(''__type'', JStr ''Date''), (''value'', JStr s)])
     = JDate (new_Date api s) \<and>
   (k \<noteq> ''__proto__'' \<longrightarrow>
      deserialize_serialize api now uuid
        \<lparr> type = t, data = JObj [(k, JObj [(''__type'', JStr ''Date''), (''value'', JStr s)])],
          metadata = None \<rparr>
        = Inr (JObj [(''type'', JStr t), (''data'', JObj [(k, JDate (new_Date api s))])])) \<and>
   (deserialize_serialize api now uuid m = Inr (message_object m) \<longrightarrow>
      marker_free (data m) \<and> (\<forall>md. metadata m = Some md \<longrightarrow> marker_free md))"
proof (intro conjI impI)
  assume "isDateMarker v"
  from dateReviver_marker [OF this] show "\<exists>d. dateReviver api key v = JDate d" by blast
next
  show "dateReviver api key (JObj [(''__type'', JStr ''Date''), (''value'', JStr s)])
     = JDate (new_Date api s)"
    by (simp add: dateReviver_def isDateMarker_def)
next
  assume nk: "k \<noteq> ''__proto__''"
  let ?m = "\<lparr> type = t, data = JObj [(k, JObj [(''__type'', JStr ''Date''), (''value'', JStr s)])],
       metadata = None \<rparr>"
  have d: "transformDatesToMarkers api (data ?m) = Inr (data ?m)" using nk by simp
  have md: "(case metadata ?m of Some md \<Rightarrow> transformDatesToMarkers api md | None \<Rightarrow> Inr JUndefined)
     = Inr JUndefined" by simp
  have "revived_property api ''data'' (data ?m) = JObj [(k, JDate (new_Date api s))]"
    by (simp add: revived_property_def dateReviver_def isDateMarker_def)
  moreover have "revived_property api ''metadata'' JUndefined = JUndefined"
    by (simp add: revived_property_def)
  ultimately show "deserialize_serialize api now uuid ?m
     = Inr (JObj [(''type'', JStr t), (''data'', JObj [(k, JDate (new_Date api s))])])"
    using deserialize_serialize_Inr [OF d md, of now uuid] by simp
next
  assume "deserialize_serialize api now uuid m = Inr (message_object m)"
  from roundtrip_safe [OF this]
  show "marker_free (data m)" by (auto dest: codec_safe_marker_free)
next
  assume "deserialize_serialize api now uuid m = Inr (message_object m)"
  from roundtrip_safe [OF this]
  show "\<forall>md. metadata m = Some md \<longrightarrow> marker_free md" by (auto dest: codec_safe_marker_free)
qed


theorem C10_marker_revived_witness:
  "isDateMarker (JObj [(''__type'', JStr ''Date''), (''value'', JStr ''2024-01-15T10:00:00.000Z'')]) \<and>
   dateReviver iso_table ''placedAt''
     (JObj [(''__type'', JStr ''Date''), (''value'', JStr ''2024-01-15T10:00:00.000Z'')])
     = JDate (Date_at 1705312800000) \<and>
   ''placedAt'' \<noteq> ''__proto__'' \<and>
   deserialize_serialize iso_table 0 ''0b7e''
     \<lparr> type = ''OrderPlaced'',
       data = JObj [(''placedAt'', JObj [(''__type'', JStr ''Date''),
                                        (''value'', JStr ''2024-01-15T10:00:00.000Z'')])],
       metadata = None \<rparr>
     = Inr (JObj [(''type'', JStr ''OrderPlaced''),
                 (''data'', JObj [(''placedAt'', JDate (Date_at 1705312800000))])]) \<and>
   deserialize_serialize iso_table 0 ''0b7e'' nested_dates_message
     = Inr (message_object nested_dates_message) \<and>
   marker_free (data nested_dates_message)"
proof -
  have h1: "isDateMarker (JObj [(''__type'', JStr ''Date''), (''value'', JStr ''2024-01-15T10:00:00.000Z'')])"
    by code_simp
  have h2: "deserialize_serialize iso_table 0 ''0b7e'' nested_dates_message
     = Inr (message_object nested_dates_message)"
    by code_simp
  have h3: "''placedAt'' \<noteq> ''__proto__''" by simp
  have nd: "new_Date iso_table ''2024-01-15T10:00:00.000Z'' = Date_at 1705312800000"
    by (simp add: iso_table_def)
  note c = C10_marker_revived [where
      v = "JObj [(''__type'', JStr ''Date''), (''value'', JStr ''2024-01-15T10:00:00.000Z'')]"
      and api = iso_table and key = "''placedAt''" and s = "''2024-01-15T10:00:00.000Z''"
      and now = 0 and uuid = "''0b7e''" and t = "''OrderPlaced''" and k = "''placedAt''"
      and m = nested_dates_message]
  note r = c [THEN conjunct2, THEN conjunct1, unfolded nd]
  note l = c [THEN conjunct2, THEN conjunct2, THEN conjunct1, THEN mp, OF h3, unfolded nd]
  note m = c [THEN conjunct2, THEN conjunct2, THEN conjunct2, THEN mp, OF h2, THEN conjunct1]
  show ?thesis
    by (intro conjI h1 r h3 l h2 m)
qed

section \<open>Properties of the error classification\<close>

lemma str_includes_sublist: "str_includes s sub = sublist sub s"
  by (induction s) (auto simp: sublist_Cons_right)

lemma shouldRetry_cases:
  "shouldRetry e =
     (\<not> instanceof_Error e \<or> message_has network_markers e \<or>
      (\<not> instanceof_EmmettError e \<and> \<not> message_has business_markers e))"
  by (cases e) (auto simp: shouldRetry_def message_has_def network_markers_def
      business_markers_def Let_def)

text \<open>
  C4 (as stated, refuted). The claim makes every \<open>EmmettError\<close>, and every error whose
  message holds a business marker, non-retriable. The network test comes first in
  \<open>shouldRetry\<close>: an \<open>EmmettError\<close> whose message mentions a timeout is retriable.
\<close>

theorem C4_counterexample:
  "instanceof_EmmettError (new_EmmettError ''Invalid state: lock timeout'') \<and>
   message_has business_markers (new_EmmettError ''Invalid state: lock timeout'') \<and>
   shouldRetry (new_EmmettError ''Invalid state: lock timeout'')"
  by code_simp

text \<open>
  C4 (amended). \<open>shouldRetry\<close> is true for every non-Error value; true for every Error
  whose lower-cased message contains a network marker, whatever else holds of it; false
  for an Error without a network marker that is an \<open>EmmettError\<close> or whose message
  contains a business marker; and true for every other Error.
\<close>

theorem C4_shouldRetry_classification:
  "(\<not> instanceof_Error e \<longrightarrow> shouldRetry e) \<and>
   (message_has network_markers e \<longrightarrow> shouldRetry e) \<and>
   (instanceof_Error e \<and> \<not> message_has network_markers e \<and>
      (instanceof_EmmettError e \<or> message_has business_markers e) \<longrightarrow> \<not> shouldRetry e) \<and>
   (instanceof_Error e \<and> \<not> message_has network_markers e \<and>
      \<not> instanceof_EmmettError e \<and> \<not> message_has business_markers e \<longrightarrow> shouldRetry e)"
  by (cases e) (auto simp: shouldRetry_cases message_has_def)

theorem C4_shouldRetry_classification_witness:
  "\<not> instanceof_Error (JsOther ''boom'' None) \<and> shouldRetry (JsOther ''boom'' None) \<and>
   message_has network_markers (new_Error ''Network error'') \<and>
   shouldRetry (new_Error ''Network error'') \<and>
   message_has business_markers (new_Error ''Validation failed'') \<and>
   \<not> message_has network_markers (new_Error ''Validation failed'') \<and>
   \<not> shouldRetry (new_Error ''Validation failed'') \<and>
   instanceof_EmmettError (new_EmmettError ''Cart is closed'') \<and>
   \<not> message_has network_markers (new_EmmettError ''Cart is closed'') \<and>
   \<not> shouldRetry (new_EmmettError ''Cart is closed'') \<and>
   \<not> message_has business_markers (new_Error ''Something odd'') \<and>
   \<not> message_has network_markers (new_Error ''Something odd'') \<and>
   shouldRetry (new_Error ''Something odd'')"
proof -
  have h1: "\<not> instanceof_Error (JsOther ''boom'' None)" by simp
  have h2: "message_has network_markers (new_Error ''Network error'')" by code_simp
  have h3: "message_has business_markers (new_Error ''Validation failed'')"
    "\<not> message_has network_markers (new_Error ''Validation failed'')"
    "instanceof_Error (new_Error ''Validation failed'')" by code_simp+
  have h4: "instanceof_EmmettError (new_EmmettError ''Cart is closed'')"
    "\<not> message_has network_markers (new_EmmettError ''Cart is closed'')"
    "instanceof_Error (new_EmmettError ''Cart is closed'')" by code_simp+
  have h5: "\<not> message_has business_markers (new_Error ''Something odd'')"
    "\<not> message_has network_markers (new_Error ''Something odd'')"
    "instanceof_Error (new_Error ''Something odd'')"
    "\<not> instanceof_EmmettError (new_Error ''Something odd'')" by code_simp+
  note c1 = C4_shouldRetry_classification [of "JsOther ''boom'' None", THEN conjunct1, rule_format, OF h1]
  note c2 = C4_shouldRetry_classification [of "new_Error ''Network error''",
      THEN conjunct2, THEN conjunct1, rule_format, OF h2]
  have c3: "\<not> shouldRetry (new_Error ''Validation failed'')"
    by (rule C4_shouldRetry_classification [THEN conjunct2, THEN conjunct2, THEN conjunct1,
          rule_format]) (intro conjI disjI2 h3)
  have c4: "\<not> shouldRetry (new_EmmettError ''Cart is closed'')"
    by (rule C4_shouldRetry_classification [THEN conjunct2, THEN conjunct2, THEN conjunct1,
          rule_format]) (intro conjI disjI1 h4)
  have c5: "shouldRetry (new_Error ''Something odd'')"
    by (rule C4_shouldRetry_classification [THEN conjunct2, THEN conjunct2, THEN conjunct2,
          rule_format]) (intro conjI h5)
  show ?thesis
    by (intro conjI h1 h2 h3 h4 h5 c1 c2 c3 c4 c5)
qed

section \<open>Properties of the dispatch\<close>

lemma sublist_across:
  assumes "c \<notin> set m" and "m \<noteq> []"
  shows "sublist m (a @ c # b) \<longleftrightarrow> sublist m a \<or> sublist m b"
proof
  assume "sublist m (a @ c # b)"
  then consider "sublist m a" | "sublist m (c # b)"
    | m1 m2 where "m = m1 @ m2" "suffix m1 a" "prefix m2 (c # b)"
    unfolding sublist_append by blast
  then show "sublist m a \<or> sublist m b"
  proof cases
    case 1
    then show ?thesis by simp
  next
    case 2
    then have "prefix m (c # b) \<or> sublist m b" by (simp add: sublist_Cons_right)
    moreover have "\<not> prefix m (c # b)"
      using assms by (cases m) (auto simp: prefix_Cons)
    ultimately show ?thesis by simp
  next
    case 3
    have "m2 = []"
    proof (cases m2)
      case (Cons x xs)
      with 3(3) have "x = c" by (simp add: prefix_Cons)
      with Cons 3(1) assms(1) show ?thesis by simp
    qed simp
    with 3 have "suffix m a" by simp
    then show ?thesis by (auto intro: suffix_imp_sublist)
  qed
next
  assume "sublist m a \<or> sublist m b"
  then show "sublist m (a @ c # b)"
    by (auto simp: sublist_append sublist_Cons_right)
qed

lemma framed_includes:
  assumes "c1 \<notin> set m" and "c2 \<notin> set m" and "m \<noteq> []"
    and "\<not> str_includes pre m" and "\<not> str_includes post m"
  shows "str_includes (pre @ c1 # name @ c2 # post) m = str_includes name m"
proof -
  have "sublist m (pre @ c1 # (name @ c2 # post)) \<longleftrightarrow> sublist m pre \<or> sublist m (name @ c2 # post)"
    using assms(1,3) by (rule sublist_across)
  moreover have "sublist m (name @ c2 # post) \<longleftrightarrow> sublist m name \<or> sublist m post"
    using assms(2,3) by (rule sublist_across)
  ultimately show ?thesis
    using assms(4,5) by (simp add: str_includes_sublist)
qed

lemma toLowerCase_append: "toLowerCase (a @ b) = toLowerCase a @ toLowerCase b"
  by (simp add: toLowerCase_def)

lemma no_handler_message_lower:
  "toLowerCase (''No handler registered for command '' @ name @ ''!'') =
     ''no handler registered for command'' @ CHR '' '' # toLowerCase name @ CHR ''!'' # []"
proof -
  have "toLowerCase ''No handler registered for command '' = ''no handler registered for command ''"
    by code_simp
  moreover have "toLowerCase ''!'' = ''!''" by code_simp
  ultimately show ?thesis unfolding toLowerCase_append by simp
qed

lemma multiple_handlers_message_lower:
  "toLowerCase (''Multiple handlers registered for command '' @ name @ ''. '' @
                ''Commands must have exactly one handler.'') =
     ''multiple handlers registered for command'' @ CHR '' '' # toLowerCase name @
     CHR ''.'' # '' commands must have exactly one handler.''"
proof -
  have "toLowerCase ''Multiple handlers registered for command '' =
        ''multiple handlers registered for command ''"
    by code_simp
  moreover have "toLowerCase ''. '' = ''. ''" by code_simp
  moreover have "toLowerCase ''Commands must have exactly one handler.'' =
        ''commands must have exactly one handler.''" by code_simp
  ultimately show ?thesis unfolding toLowerCase_append by simp
qed

lemma marker_apart_all:
  assumes "marker_apart pre post c ''network''" "marker_apart pre post c ''timeout''"
    "marker_apart pre post c ''econnrefused''" "marker_apart pre post c ''enotfound''"
    "marker_apart pre post c ''unavailable''"
    and "m \<in> set network_markers"
  shows "marker_apart pre post c m"
proof -
  from assms(6) have "m = ''network'' \<or> m = ''timeout'' \<or> m = ''econnrefused'' \<or>
     m = ''enotfound'' \<or> m = ''unavailable''"
    unfolding network_markers_def by simp
  with assms(1-5) show ?thesis by blast
qed

lemma no_handler_marker:
  assumes "m \<in> set network_markers"
  shows "str_includes (toLowerCase (''No handler registered for command '' @ name @ ''!'')) m =
         str_includes (toLowerCase name) m"
proof -
  have "marker_apart ''no handler registered for command'' [] CHR ''!'' m"
    using _ _ _ _ _ assms by (rule marker_apart_all) code_simp+
  then show ?thesis
    unfolding no_handler_message_lower marker_apart_def by (intro framed_includes) auto
qed

lemma multiple_handlers_marker:
  assumes "m \<in> set network_markers"
  shows "str_includes (toLowerCase (''Multiple handlers registered for command '' @ name @ ''. '' @
                                    ''Commands must have exactly one handler.'')) m =
         str_includes (toLowerCase name) m"
proof -
  have "marker_apart ''multiple handlers registered for command''
          '' commands must have exactly one handler.'' CHR ''.'' m"
    using _ _ _ _ _ assms by (rule marker_apart_all) code_simp+
  then show ?thesis
    unfolding multiple_handlers_message_lower marker_apart_def by (intro framed_includes) auto
qed

lemma new_EmmettError_facts:
  "instanceof_Error (new_EmmettError x)" "instanceof_EmmettError (new_EmmettError x)"
  "error_text (new_EmmettError x) = x"
  by (simp_all add: new_EmmettError_def)

lemma EmmettError_retry:
  "shouldRetry (new_EmmettError x) = (\<exists>m \<in> set network_markers. str_includes (toLowerCase x) m)"
  by (simp only: shouldRetry_cases message_has_def new_EmmettError_facts simp_thms)

lemma no_handler_retry:
  "shouldRetry (new_EmmettError (''No handler registered for command '' @ name @ ''!'')) =
     names_marker network_markers name"
  unfolding EmmettError_retry names_marker_def
  by (rule bex_cong [OF refl]) (rule no_handler_marker)

lemma multiple_handlers_retry:
  "shouldRetry (new_EmmettError (''Multiple handlers registered for command '' @ name @ ''. '' @
                                 ''Commands must have exactly one handler.'')) =
     names_marker network_markers name"
  unfolding EmmettError_retry names_marker_def
  by (rule bex_cong [OF refl]) (rule multiple_handlers_marker)

lemma state_before_0 [simp]: "state_before hs event w 0 = w"
  by (simp add: state_before_def)

lemma state_before_Suc [simp]:
  "state_before (h # hs) event w (Suc k) = state_before hs event (snd (h event w)) k"
  by (simp add: state_before_def)

lemma outcome_at_0 [simp]: "outcome_at (h # hs) event w 0 = fst (h event w)"
  by (simp add: outcome_at_def)

lemma outcome_at_Suc [simp]:
  "outcome_at (h # hs) event w (Suc k) = outcome_at hs event (snd (h event w)) k"
  by (simp add: outcome_at_def)

lemma upt_from: "i < j \<Longrightarrow> i # [Suc i..<j] = [i..<j]"
  by (simp add: upt_conv_Cons)

lemma run_event_handlers_all:
  "\<forall>k<length hs. \<not> retriable_failure (outcome_at hs event w k) \<Longrightarrow>
     run_event_handlers hs i event w =
       (Ack, [i..<i + length hs], state_before hs event w (length hs))"
proof (induction hs arbitrary: i w)
  case Nil
  then show ?case by simp
next
  case (Cons h hs)
  obtain r w' where h: "h event w = (r, w')" by (cases "h event w")
  from Cons.prems have 0: "\<not> retriable_failure (outcome_at (h # hs) event w 0)" by auto
  from Cons.prems have "\<forall>k<length hs. \<not> retriable_failure (outcome_at (h # hs) event w (Suc k))"
    by auto
  with h have "\<forall>k<length hs. \<not> retriable_failure (outcome_at hs event w' k)" by simp
  from Cons.IH [OF this, of "Suc i"] h 0 show ?case
    by (cases r) (auto simp: retriable_failure_def upt_from simp del: upt_Suc)
qed

lemma run_event_handlers_stop:
  "k < length hs \<Longrightarrow> retriable_failure (outcome_at hs event w k) \<Longrightarrow>
   \<forall>j<k. \<not> retriable_failure (outcome_at hs event w j) \<Longrightarrow>
     run_event_handlers hs i event w =
       (Nack, [i..<i + Suc k], state_before hs event w (Suc k))"
proof (induction hs arbitrary: i w k)
  case Nil
  then show ?case by simp
next
  case (Cons h hs)
  obtain r w' where h: "h event w = (r, w')" by (cases "h event w")
  show ?case
  proof (cases k)
    case 0
    with Cons.prems h show ?thesis
      by (cases r) (auto simp: retriable_failure_def)
  next
    case (Suc k')
    with Cons.prems have 0: "\<not> retriable_failure (outcome_at (h # hs) event w 0)" by auto
    from Cons.prems Suc h have k': "k' < length hs"
      "retriable_failure (outcome_at hs event w' k')" by auto
    from Cons.prems Suc have "\<forall>j<k'. \<not> retriable_failure (outcome_at (h # hs) event w (Suc j))"
      by auto
    with h have "\<forall>j<k'. \<not> retriable_failure (outcome_at hs event w' j)" by simp
    from Cons.IH [OF k' this, of "Suc i"] h 0 Suc show ?thesis
      by (cases r) (auto simp: retriable_failure_def upt_from simp del: upt_Suc)
  qed
qed

text \<open>
  C3 (as stated, refuted). The claim is made for every dispatch with one or more
  handlers. A payload that is not JSON arrives for a type with a registered handler: no
  handler is invoked. The text of the SyntaxError contains "invalid", so the error of
  \<open>deserialize\<close> is classified non-retriable and the answer is ack.
\<close>

theorem C3_counterexample:
  "handleEventMessage iso_table invalid_json_payload
     [''ProductItemAdded'' \<mapsto> [logging_handler ''a'' None]] ''ProductItemAdded'' []
   = (Ack, [], [])"
  by code_simp

text \<open>
  C3 (amended). With no handler list for the event type, or an empty one,
  \<open>handleEventMessage\<close> answers ack, invokes nothing and leaves the state alone, whatever
  the payload is. With a non-empty list and a payload that \<open>deserialize\<close> accepts, the
  handlers run one after the other in the order of registration, each in the state its
  predecessors left: if none of them fails with an error classified retriable, all of them
  have run and the answer is ack, errors classified non-retriable having been passed over;
  otherwise the walk ends at the first handler that fails with a retriable error, the
  answer is nack, and no later handler has run. With a non-empty list and a payload that
  \<open>deserialize\<close> rejects, no handler is invoked and the answer is nack or ack as
  \<open>shouldRetry\<close> classifies the error of \<open>deserialize\<close>.
\<close>

theorem C3_handleEventMessage:
  "((registry eventType = None \<or> registry eventType = Some []) \<longrightarrow>
      handleEventMessage api buf registry eventType w = (Ack, [], w)) \<and>
   (registry eventType = Some hs \<and> hs \<noteq> [] \<and> deserialize api buf = Inr event \<longrightarrow>
      ((\<forall>k<length hs. \<not> retriable_failure (outcome_at hs event w k)) \<longrightarrow>
         handleEventMessage api buf registry eventType w =
           (Ack, [0..<length hs], state_before hs event w (length hs))) \<and>
      (\<forall>k<length hs.
         retriable_failure (outcome_at hs event w k) \<and>
         (\<forall>j<k. \<not> retriable_failure (outcome_at hs event w j)) \<longrightarrow>
         handleEventMessage api buf registry eventType w =
           (Nack, [0..<Suc k], state_before hs event w (Suc k)))) \<and>
   (registry eventType = Some hs \<and> hs \<noteq> [] \<and> deserialize api buf = Inl e \<longrightarrow>
      handleEventMessage api buf registry eventType w =
        (if shouldRetry e then Nack else Ack, [], w))"
proof -
  have none: "(registry eventType = None \<or> registry eventType = Some []) \<longrightarrow>
      handleEventMessage api buf registry eventType w = (Ack, [], w)"
    by (auto simp: handleEventMessage_def)
  have walk: "registry eventType = Some hs \<and> hs \<noteq> [] \<and> deserialize api buf = Inr event \<longrightarrow>
      ((\<forall>k<length hs. \<not> retriable_failure (outcome_at hs event w k)) \<longrightarrow>
         handleEventMessage api buf registry eventType w =
           (Ack, [0..<length hs], state_before hs event w (length hs))) \<and>
      (\<forall>k<length hs.
         retriable_failure (outcome_at hs event w k) \<and>
         (\<forall>j<k. \<not> retriable_failure (outcome_at hs event w j)) \<longrightarrow>
         handleEventMessage api buf registry eventType w =
           (Nack, [0..<Suc k], state_before hs event w (Suc k)))"
  proof (intro conjI impI allI)
    assume a: "registry eventType = Some hs \<and> hs \<noteq> [] \<and> deserialize api buf = Inr event"
      and b: "\<forall>k<length hs. \<not> retriable_failure (outcome_at hs event w k)"
    from run_event_handlers_all [OF b, of 0] a
    show "handleEventMessage api buf registry eventType w =
           (Ack, [0..<length hs], state_before hs event w (length hs))"
      by (simp add: handleEventMessage_def)
  next
    fix k
    assume a: "registry eventType = Some hs \<and> hs \<noteq> [] \<and> deserialize api buf = Inr event"
      and k: "k < length hs"
      and b: "retriable_failure (outcome_at hs event w k) \<and>
         (\<forall>j<k. \<not> retriable_failure (outcome_at hs event w j))"
    from run_event_handlers_stop [OF k, of event w 0] a b
    show "handleEventMessage api buf registry eventType w =
           (Nack, [0..<Suc k], state_before hs event w (Suc k))"
      by (simp add: handleEventMessage_def)
  qed
  have undecoded: "registry eventType = Some hs \<and> hs \<noteq> [] \<and> deserialize api buf = Inl e \<longrightarrow>
      handleEventMessage api buf registry eventType w =
        (if shouldRetry e then Nack else Ack, [], w)"
    by (simp add: handleEventMessage_def)
  show ?thesis
    by (intro conjI none walk undecoded)
qed

theorem C3_handleEventMessage_witness:
  "handleEventMessage iso_table item_added_payload Map.empty ''ProductItemAdded'' ([] :: string list)
     = (Ack, [], []) \<and>
   deserialize iso_table item_added_payload = Inr item_added_event \<and>
   handleEventMessage iso_table item_added_payload
     [''ProductItemAdded'' \<mapsto>
        [logging_handler ''a'' None,
         logging_handler ''b'' (Some (new_Error ''Validation failed''))]]
     ''ProductItemAdded'' []
     = (Ack, [0, 1], [''a'', ''b'']) \<and>
   handleEventMessage iso_table item_added_payload
     [''ProductItemAdded'' \<mapsto>
        [logging_handler ''a'' None,
         logging_handler ''b'' (Some (new_Error ''Validation failed'')),
         logging_handler ''c'' (Some (new_Error ''Network timeout'')),
         logging_handler ''d'' None]]
     ''ProductItemAdded'' []
     = (Nack, [0, 1, 2], [''a'', ''b'', ''c'']) \<and>
   deserialize iso_table (Bad_text ''Unexpected end of JSON input'')
     = Inl (new_Error (''Failed to deserialize message: '' @ ''Unexpected end of JSON input'')) \<and>
   handleEventMessage iso_table (Bad_text ''Unexpected end of JSON input'')
     [''ProductItemAdded'' \<mapsto> [logging_handler ''a'' None]] ''ProductItemAdded'' []
     = (Nack, [], [])"
proof -
  let ?a = "logging_handler ''a'' None"
  let ?b = "logging_handler ''b'' (Some (new_Error ''Validation failed''))"
  let ?c = "logging_handler ''c'' (Some (new_Error ''Network timeout''))"
  let ?d = "logging_handler ''d'' None"
  let ?T = "''ProductItemAdded''"
  have de: "deserialize iso_table item_added_payload = Inr item_added_event"
    by code_simp
  have nr: "\<not> shouldRetry (new_Error ''Validation failed'')" by code_simp
  have rt: "shouldRetry (new_Error ''Network timeout'')" by code_simp
  have "Map.empty ?T = None \<or> Map.empty ?T = Some []" by simp
  from C3_handleEventMessage [where registry = Map.empty and eventType = ?T, THEN conjunct1,
      rule_format, OF this]
  have 1: "handleEventMessage iso_table item_added_payload Map.empty ?T ([] :: string list)
     = (Ack, [], [])" .
  have pre2: "[?T \<mapsto> [?a, ?b]] ?T = Some [?a, ?b] \<and> [?a, ?b] \<noteq> [] \<and>
     deserialize iso_table item_added_payload = Inr item_added_event"
    using de by simp
  have ok: "\<forall>k<length [?a, ?b]. \<not> retriable_failure (outcome_at [?a, ?b] item_added_event [] k)"
    using nr by (auto simp: less_Suc_eq retriable_failure_def logging_handler_def)
  from C3_handleEventMessage [where registry = "[?T \<mapsto> [?a, ?b]]" and eventType = ?T,
      THEN conjunct2, THEN conjunct1, THEN mp, OF pre2, THEN conjunct1, THEN mp, OF ok]
  have 2: "handleEventMessage iso_table item_added_payload [?T \<mapsto> [?a, ?b]] ?T []
     = (Ack, [0..<length [?a, ?b]], state_before [?a, ?b] item_added_event [] (length [?a, ?b]))" .
  have pre3: "[?T \<mapsto> [?a, ?b, ?c, ?d]] ?T = Some [?a, ?b, ?c, ?d] \<and> [?a, ?b, ?c, ?d] \<noteq> [] \<and>
     deserialize iso_table item_added_payload = Inr item_added_event"
    using de by simp
  have k: "2 < length [?a, ?b, ?c, ?d]" by simp
  have stop: "retriable_failure (outcome_at [?a, ?b, ?c, ?d] item_added_event [] 2) \<and>
     (\<forall>j<2. \<not> retriable_failure (outcome_at [?a, ?b, ?c, ?d] item_added_event [] j))"
    using nr rt
    by (auto simp: less_Suc_eq numeral_2_eq_2 retriable_failure_def logging_handler_def)
  from C3_handleEventMessage [where registry = "[?T \<mapsto> [?a, ?b, ?c, ?d]]" and eventType = ?T,
      THEN conjunct2, THEN conjunct1, THEN mp, OF pre3, THEN conjunct2, rule_format, OF k stop]
  have 3: "handleEventMessage iso_table item_added_payload [?T \<mapsto> [?a, ?b, ?c, ?d]] ?T []
     = (Nack, [0..<Suc 2], state_before [?a, ?b, ?c, ?d] item_added_event [] (Suc 2))" .
  have s2: "state_before [?a, ?b] item_added_event [] (length [?a, ?b]) = [''a'', ''b'']"
    by (simp add: logging_handler_def)
  have s3: "state_before [?a, ?b, ?c, ?d] item_added_event [] (Suc 2) = [''a'', ''b'', ''c'']"
    by (simp add: numeral_2_eq_2 logging_handler_def)
  have u2: "[0..<length [?a, ?b]] = [0, 1]" by (simp add: upt_rec)
  have u3: "[0..<Suc 2] = [0, 1, 2]" by (simp add: upt_rec)
  have bad: "deserialize iso_table (Bad_text ''Unexpected end of JSON input'')
     = Inl (new_Error (''Failed to deserialize message: '' @ ''Unexpected end of JSON input''))"
    by code_simp
  have pre4: "[?T \<mapsto> [?a]] ?T = Some [?a] \<and> [?a] \<noteq> [] \<and>
     deserialize iso_table (Bad_text ''Unexpected end of JSON input'')
     = Inl (new_Error (''Failed to deserialize message: '' @ ''Unexpected end of JSON input''))"
    using bad by simp
  have rb: "shouldRetry (new_Error (''Failed to deserialize message: '' @
                                    ''Unexpected end of JSON input''))"
    by code_simp
  from C3_handleEventMessage [where registry = "[?T \<mapsto> [?a]]" and eventType = ?T,
      THEN conjunct2, THEN conjunct2, THEN mp, OF pre4] rb
  have 4: "handleEventMessage iso_table (Bad_text ''Unexpected end of JSON input'')
     [?T \<mapsto> [?a]] ?T [] = (Nack, [], [])"
    by simp
  from 1 de 2 3 bad 4 show ?thesis unfolding s2 s3 u2 u3 by blast
qed

lemma handleCommandMessage_not_single:
  assumes "registry commandType = None \<or> (\<exists>hs. registry commandType = Some hs \<and> length hs \<noteq> 1)"
  shows "snd (handleCommandMessage api buf registry commandType w) = ([], w)"
proof (cases "registry commandType")
  case None
  then show ?thesis
    by (simp add: handleCommandMessage_def handleCommandMessage_try_def)
next
  case (Some hs)
  with assms have "length hs = 0 \<or> length hs > 1" by (cases hs) auto
  with Some show ?thesis
    by (auto simp: handleCommandMessage_def handleCommandMessage_try_def)
qed

lemma handleCommandMessage_no_handler:
  assumes "registry commandType = None \<or> registry commandType = Some []"
  shows "fst (handleCommandMessage api buf registry commandType w) =
     (if shouldRetry (new_EmmettError (''No handler registered for command '' @ commandType @ ''!''))
      then Nack else Ack)"
  using assms
  by (auto simp: handleCommandMessage_def handleCommandMessage_try_def)

lemma handleCommandMessage_multiple:
  assumes "registry commandType = Some hs" and "length hs > 1"
  shows "fst (handleCommandMessage api buf registry commandType w) =
     (if shouldRetry (new_EmmettError (''Multiple handlers registered for command '' @ commandType @
                                        ''. Commands must have exactly one handler.''))
      then Nack else Ack)"
  using assms
  by (auto simp: handleCommandMessage_def handleCommandMessage_try_def)

text \<open>
  C1 (as stated, refuted). A command arrives for a type with no registered handler:
  \<open>handleCommandMessage\<close> answers ack, not nack. The \<open>EmmettError\<close> it throws is
  classified non-retriable by \<open>shouldRetry\<close>.
\<close>

theorem C1_counterexample:
  "handleCommandMessage iso_table item_added_payload Map.empty ''TestCommand'' ([] :: string list)
     = (Ack, [], []) \<and>
   fst (handleCommandMessage iso_table item_added_payload Map.empty ''TestCommand''
          ([] :: string list)) \<noteq> Nack"
  by code_simp

text \<open>
  C1 (amended). When the handler list registered for the command type is absent, empty
  or longer than one, \<open>handleCommandMessage\<close> invokes no handler and leaves the state
  alone; and when, besides, the name of the command type contains none of the markers
  \<open>network\<close>, \<open>timeout\<close>, \<open>econnrefused\<close>, \<open>enotfound\<close>, \<open>unavailable\<close> (in any letter
  case), the answer is ack in both cases.
\<close>

theorem C1_handleCommandMessage_not_one_handler:
  "((registry commandType = None \<or> (\<exists>hs. registry commandType = Some hs \<and> length hs \<noteq> 1))
      \<longrightarrow> snd (handleCommandMessage api buf registry commandType w) = ([], w)) \<and>
   ((registry commandType = None \<or> (\<exists>hs. registry commandType = Some hs \<and> length hs \<noteq> 1)) \<and>
    \<not> names_marker network_markers commandType
      \<longrightarrow> handleCommandMessage api buf registry commandType w = (Ack, [], w))"
proof (intro conjI impI)
  assume "registry commandType = None \<or> (\<exists>hs. registry commandType = Some hs \<and> length hs \<noteq> 1)"
  then show "snd (handleCommandMessage api buf registry commandType w) = ([], w)"
    by (rule handleCommandMessage_not_single)
next
  assume a: "(registry commandType = None \<or>
      (\<exists>hs. registry commandType = Some hs \<and> length hs \<noteq> 1)) \<and>
    \<not> names_marker network_markers commandType"
  then have "registry commandType = None \<or>
      (\<exists>hs. registry commandType = Some hs \<and> length hs \<noteq> 1)" by blast
  then have s: "snd (handleCommandMessage api buf registry commandType w) = ([], w)"
    by (rule handleCommandMessage_not_single)
  have f: "fst (handleCommandMessage api buf registry commandType w) = Ack"
  proof (cases "registry commandType = None \<or> registry commandType = Some []")
    case True
    from handleCommandMessage_no_handler [where registry = registry and commandType = commandType,
        OF this] a show ?thesis
      by (simp only: no_handler_retry if_False)
  next
    case False
    with a obtain hs where hs: "registry commandType = Some hs" "length hs \<noteq> 1" "hs \<noteq> []"
      by auto
    then have "length hs > 1" by (cases hs) auto
    have m: "shouldRetry (new_EmmettError (''Multiple handlers registered for command '' @
                 commandType @ ''. Commands must have exactly one handler.'')) =
       names_marker network_markers commandType"
      using multiple_handlers_retry [of commandType] by simp
    from handleCommandMessage_multiple [where registry = registry and commandType = commandType,
        OF hs(1) \<open>length hs > 1\<close>] a show ?thesis
      by (simp only: m if_False)
  qed
  from f s show "handleCommandMessage api buf registry commandType w = (Ack, [], w)"
    by (cases "handleCommandMessage api buf registry commandType w") simp
qed

theorem C1_handleCommandMessage_not_one_handler_witness:
  "\<not> names_marker network_markers ''TestCommand'' \<and>
   handleCommandMessage iso_table item_added_payload Map.empty ''TestCommand'' ([] :: string list)
     = (Ack, [], []) \<and>
   handleCommandMessage iso_table item_added_payload
     [''TestCommand'' \<mapsto> [logging_handler ''a'' None, logging_handler ''b'' None]]
     ''TestCommand'' []
     = (Ack, [], [])"
proof -
  have n: "\<not> names_marker network_markers ''TestCommand''" by code_simp
  have a1: "((Map.empty :: string \<rightharpoonup> string list handler list) ''TestCommand'' = None \<or>
      (\<exists>hs. (Map.empty :: string \<rightharpoonup> string list handler list) ''TestCommand'' = Some hs \<and>
            length hs \<noteq> 1)) \<and>
    \<not> names_marker network_markers ''TestCommand''"
    using n by simp
  have a2: "([''TestCommand'' \<mapsto> [logging_handler ''a'' None, logging_handler ''b'' None]]
        ''TestCommand'' = None \<or>
      (\<exists>hs. [''TestCommand'' \<mapsto> [logging_handler ''a'' None, logging_handler ''b'' None]]
              ''TestCommand'' = Some hs \<and> length hs \<noteq> 1)) \<and>
    \<not> names_marker network_markers ''TestCommand''"
    using n by simp
  note g1 = C1_handleCommandMessage_not_one_handler [where registry = Map.empty
      and commandType = "''TestCommand''" and api = iso_table and buf = item_added_payload
      and w = "[] :: string list", THEN conjunct2, THEN mp, OF a1]
  note g2 = C1_handleCommandMessage_not_one_handler [where
      registry = "[''TestCommand'' \<mapsto> [logging_handler ''a'' None, logging_handler ''b'' None]]"
      and commandType = "''TestCommand''" and api = iso_table and buf = item_added_payload
      and w = "[]", THEN conjunct2, THEN mp, OF a2]
  show ?thesis
    by (intro conjI n g1 g2)
qed

section \<open>Properties of the scheduler\<close>

lemma dequeue_native: "\<not> useEmulator s \<Longrightarrow> dequeue now s = ([], s)"
  by (simp add: dequeue_def)

lemma schedule_native_keeps_buffer:
  "\<not> useEmulator s \<Longrightarrow>
     pendingMessages (snd (fst (schedule api pubsub now uuid msg opts s r))) = pendingMessages s"
  by (auto simp: schedule_def publishScheduledMessage_def publishScheduledMessage_try_def Let_def
      split: prod.splits option.splits sum.splits jsdate.splits if_splits)

lemma date_gt_not_le: "d \<noteq> Invalid_Date \<Longrightarrow> date_gt d (Date_at now) = (\<not> date_le d (Date_at now))"
  by (cases d) auto

lemma dequeue_partition_valid:
  assumes "useEmulator s" and "\<forall>info \<in> set (pendingMessages s). scheduledAt info \<noteq> Invalid_Date"
  shows "dequeue now s =
     (map (\<lambda>info. \<lparr> message = message info, options = options info \<rparr>)
        (filter (\<lambda>info. date_le (scheduledAt info) (Date_at now)) (pendingMessages s)),
      s\<lparr> pendingMessages :=
           filter (\<lambda>info. \<not> date_le (scheduledAt info) (Date_at now)) (pendingMessages s) \<rparr>)"
proof -
  have "filter (\<lambda>msg. date_gt (scheduledAt msg) (Date_at now)) (pendingMessages s) =
        filter (\<lambda>info. \<not> date_le (scheduledAt info) (Date_at now)) (pendingMessages s)"
    using assms(2) by (intro filter_cong) (auto simp: date_gt_not_le)
  with assms(1) show ?thesis
    by (simp add: dequeue_def filterReadyMessages_def Let_def)
qed

text \<open>
  C5 (the code at the input on which it departs from the claim). In emulator mode a
  message is scheduled 1e16 ms ahead: the resolved instant is beyond the range of Date,
  so \<open>scheduledAt\<close> is the Invalid Date. The next \<open>dequeue\<close> returns nothing and leaves
  the buffer empty: the entry was not ready, was not returned, and is gone.
\<close>

theorem C5_unready_entry_lost:
  "schedule iso_table recording_client 0 ''0b7e'' reminder (Some (AfterInMs 10000000000000000))
     (new_MessageScheduler True None None) []
   = ((None, (new_MessageScheduler True None None)
               \<lparr> pendingMessages :=
                   [\<lparr> message = reminder, options = Some (AfterInMs 10000000000000000),
                      scheduledAt = Invalid_Date \<rparr>] \<rparr>), []) \<and>
   dequeue 1000
     ((new_MessageScheduler True None None)
        \<lparr> pendingMessages :=
            [\<lparr> message = reminder, options = Some (AfterInMs 10000000000000000),
               scheduledAt = Invalid_Date \<rparr>] \<rparr>)
   = ([], new_MessageScheduler True None None)"
  by (simp add: schedule_def dequeue_def new_MessageScheduler_def calculateScheduledTime_def
      TimeClip_def filterReadyMessages_def)

section \<open>Properties of the provisioning\<close>

lemma catch_createError_6: "error_code ce = Inr (Some 6) \<Longrightarrow> catch_createError ce = None"
  by (simp add: catch_createError_def)

lemma catch_createError_other:
  "error_code ce \<noteq> Inr (Some 6) \<Longrightarrow> \<exists>e. catch_createError ce = Some e"
  by (cases "error_code ce") (auto simp: catch_createError_def)

lemma catch_createError_None_iff: "catch_createError ce = None \<longleftrightarrow> error_code ce = Inr (Some 6)"
  by (cases "error_code ce") (auto simp: catch_createError_def)

text \<open>
  C8. \<open>getOrCreateTopic\<close> and \<open>getOrCreateSubscription\<close>: when the existence check
  answers "absent" and \<open>create()\<close> is rejected with a value whose \<open>code\<close> is 6, the
  resource reference is returned as success. A rejected existence check, and a
  \<open>create()\<close> rejected with anything else, come out as an Error whose message starts
  with "Failed to get or create topic/subscription" and the resource name. And a success
  means that no call failed or that the only failure was that \<open>create()\<close> with code 6.
\<close>

theorem C8_only_already_exists_swallowed:
  "(topic_exists pubsub name r = (Inr False, r1) \<and> topic_create pubsub name r1 = (Some ce, r2) \<and>
      error_code ce = Inr (Some 6) \<longrightarrow>
        getOrCreateTopic pubsub name r = (Inr name, r2)) \<and>
   (topic_exists pubsub name r = (Inl e, r1) \<longrightarrow>
        getOrCreateTopic pubsub name r =
          (Inl (new_Error (''Failed to get or create topic '' @ name @ '': '' @ error_text e)), r1)) \<and>
   (topic_exists pubsub name r = (Inr False, r1) \<and> topic_create pubsub name r1 = (Some ce, r2) \<and>
      error_code ce \<noteq> Inr (Some 6) \<longrightarrow>
        (\<exists>detail. getOrCreateTopic pubsub name r =
           (Inl (new_Error (''Failed to get or create topic '' @ name @ '': '' @ detail)), r2))) \<and>
   (fst (getOrCreateTopic pubsub name r) = Inr t \<longrightarrow>
        t = name \<and>
        (\<exists>b r1. topic_exists pubsub name r = (Inr b, r1) \<and>
           (b \<or> fst (topic_create pubsub name r1) = None \<or>
            (\<exists>ce. fst (topic_create pubsub name r1) = Some ce \<and> error_code ce = Inr (Some 6))))) \<and>
   (subscription_exists pubsub topic sname r = (Inr False, r1) \<and>
      subscription_create pubsub topic sname (subscription_config opts) r1 = (Some ce, r2) \<and>
      error_code ce = Inr (Some 6) \<longrightarrow>
        getOrCreateSubscription pubsub topic sname opts r = (Inr sname, r2)) \<and>
   (subscription_exists pubsub topic sname r = (Inl e, r1) \<longrightarrow>
        getOrCreateSubscription pubsub topic sname opts r =
          (Inl (new_Error (''Failed to get or create subscription '' @ sname @ '': '' @
                           error_text e)), r1)) \<and>
   (subscription_exists pubsub topic sname r = (Inr False, r1) \<and>
      subscription_create pubsub topic sname (subscription_config opts) r1 = (Some ce, r2) \<and>
      error_code ce \<noteq> Inr (Some 6) \<longrightarrow>
        (\<exists>detail. getOrCreateSubscription pubsub topic sname opts r =
           (Inl (new_Error (''Failed to get or create subscription '' @ sname @ '': '' @ detail)),
            r2))) \<and>
   (fst (getOrCreateSubscription pubsub topic sname opts r) = Inr t \<longrightarrow>
        t = sname \<and>
        (\<exists>b r1. subscription_exists pubsub topic sname r = (Inr b, r1) \<and>
           (b \<or> fst (subscription_create pubsub topic sname (subscription_config opts) r1) = None \<or>
            (\<exists>ce. fst (subscription_create pubsub topic sname (subscription_config opts) r1) = Some ce \<and>
                  error_code ce = Inr (Some 6)))))"
proof -
  have t1: "topic_exists pubsub name r = (Inr False, r1) \<and> topic_create pubsub name r1 = (Some ce, r2) \<and>
      error_code ce = Inr (Some 6) \<longrightarrow>
        getOrCreateTopic pubsub name r = (Inr name, r2)"
    by (simp add: getOrCreateTopic_def getOrCreateTopic_try_def catch_createError_6)
  have t2: "topic_exists pubsub name r = (Inl e, r1) \<longrightarrow>
        getOrCreateTopic pubsub name r =
          (Inl (new_Error (''Failed to get or create topic '' @ name @ '': '' @ error_text e)), r1)"
    by (simp add: getOrCreateTopic_def getOrCreateTopic_try_def)
  have t3: "topic_exists pubsub name r = (Inr False, r1) \<and> topic_create pubsub name r1 = (Some ce, r2) \<and>
      error_code ce \<noteq> Inr (Some 6) \<longrightarrow>
        (\<exists>detail. getOrCreateTopic pubsub name r =
           (Inl (new_Error (''Failed to get or create topic '' @ name @ '': '' @ detail)), r2))"
  proof
    assume a: "topic_exists pubsub name r = (Inr False, r1) \<and>
      topic_create pubsub name r1 = (Some ce, r2) \<and> error_code ce \<noteq> Inr (Some 6)"
    then obtain e' where "catch_createError ce = Some e'"
      using catch_createError_other by blast
    with a have "getOrCreateTopic pubsub name r =
           (Inl (new_Error (''Failed to get or create topic '' @ name @ '': '' @ error_text e')), r2)"
      by (simp add: getOrCreateTopic_def getOrCreateTopic_try_def)
    then show "\<exists>detail. getOrCreateTopic pubsub name r =
           (Inl (new_Error (''Failed to get or create topic '' @ name @ '': '' @ detail)), r2)"
      by blast
  qed
  have t4: "fst (getOrCreateTopic pubsub name r) = Inr t \<longrightarrow>
        t = name \<and>
        (\<exists>b r1. topic_exists pubsub name r = (Inr b, r1) \<and>
           (b \<or> fst (topic_create pubsub name r1) = None \<or>
            (\<exists>ce. fst (topic_create pubsub name r1) = Some ce \<and> error_code ce = Inr (Some 6))))"
    by (auto simp: getOrCreateTopic_def getOrCreateTopic_try_def catch_createError_None_iff
        split: prod.splits sum.splits option.splits if_splits)
  have s1: "subscription_exists pubsub topic sname r = (Inr False, r1) \<and>
      subscription_create pubsub topic sname (subscription_config opts) r1 = (Some ce, r2) \<and>
      error_code ce = Inr (Some 6) \<longrightarrow>
        getOrCreateSubscription pubsub topic sname opts r = (Inr sname, r2)"
    by (simp add: getOrCreateSubscription_def getOrCreateSubscription_try_def catch_createError_6)
  have s2: "subscription_exists pubsub topic sname r = (Inl e, r1) \<longrightarrow>
        getOrCreateSubscription pubsub topic sname opts r =
          (Inl (new_Error (''Failed to get or create subscription '' @ sname @ '': '' @
                           error_text e)), r1)"
    by (simp add: getOrCreateSubscription_def getOrCreateSubscription_try_def)
  have s3: "subscription_exists pubsub topic sname r = (Inr False, r1) \<and>
      subscription_create pubsub topic sname (subscription_config opts) r1 = (Some ce, r2) \<and>
      error_code ce \<noteq> Inr (Some 6) \<longrightarrow>
        (\<exists>detail. getOrCreateSubscription pubsub topic sname opts r =
           (Inl (new_Error (''Failed to get or create subscription '' @ sname @ '': '' @ detail)),
            r2))"
  proof
    assume a: "subscription_exists pubsub topic sname r = (Inr False, r1) \<and>
      subscription_create pubsub topic sname (subscription_config opts) r1 = (Some ce, r2) \<and>
      error_code ce \<noteq> Inr (Some 6)"
    then obtain e' where "catch_createError ce = Some e'"
      using catch_createError_other by blast
    with a have "getOrCreateSubscription pubsub topic sname opts r =
           (Inl (new_Error (''Failed to get or create subscription '' @ sname @ '': '' @
                            error_text e')), r2)"
      by (simp add: getOrCreateSubscription_def getOrCreateSubscription_try_def)
    then show "\<exists>detail. getOrCreateSubscription pubsub topic sname opts r =
           (Inl (new_Error (''Failed to get or create subscription '' @ sname @ '': '' @ detail)),
            r2)"
      by blast
  qed
  have s4: "fst (getOrCreateSubscription pubsub topic sname opts r) = Inr t \<longrightarrow>
        t = sname \<and>
        (\<exists>b r1. subscription_exists pubsub topic sname r = (Inr b, r1) \<and>
           (b \<or> fst (subscription_create pubsub topic sname (subscription_config opts) r1) = None \<or>
            (\<exists>ce. fst (subscription_create pubsub topic sname (subscription_config opts) r1) = Some ce \<and>
                  error_code ce = Inr (Some 6))))"
    by (auto simp: getOrCreateSubscription_def getOrCreateSubscription_try_def
        catch_createError_None_iff Let_def
        split: prod.splits sum.splits option.splits if_splits)
  show ?thesis
    by (intro conjI t1 t2 t3 t4 s1 s2 s3 s4)
qed


theorem C8_only_already_exists_swallowed_witness:
  "getOrCreateTopic
     (rejecting_client (new_Error ''UNAVAILABLE'') (JsError False ''ALREADY_EXISTS'' (Some 6)) False)
     ''emmett-cmd-AddProductItem'' 0
     = (Inr ''emmett-cmd-AddProductItem'', Suc (Suc 0)) \<and>
   getOrCreateTopic
     (rejecting_client (new_Error ''UNAVAILABLE'') (JsError False ''ALREADY_EXISTS'' (Some 6)) True)
     ''emmett-cmd-AddProductItem'' 0
     = (Inl (new_Error (''Failed to get or create topic '' @ ''emmett-cmd-AddProductItem'' @ '': '' @
                        ''UNAVAILABLE'')), Suc 0) \<and>
   (\<exists>detail.
      getOrCreateTopic
        (rejecting_client (new_Error ''UNAVAILABLE'') (JsError False ''PERMISSION_DENIED'' (Some 7)) False)
        ''emmett-cmd-AddProductItem'' 0
        = (Inl (new_Error (''Failed to get or create topic '' @ ''emmett-cmd-AddProductItem'' @ '': '' @
                           detail)), Suc (Suc 0))) \<and>
   getOrCreateSubscription
     (rejecting_client (new_Error ''UNAVAILABLE'') (JsError False ''ALREADY_EXISTS'' (Some 6)) False)
     ''emmett-cmd-AddProductItem'' ''emmett-cmd-AddProductItem-i1'' None 0
     = (Inr ''emmett-cmd-AddProductItem-i1'', Suc (Suc 0)) \<and>
   getOrCreateSubscription
     (rejecting_client (new_Error ''UNAVAILABLE'') (JsError False ''ALREADY_EXISTS'' (Some 6)) True)
     ''emmett-cmd-AddProductItem'' ''emmett-cmd-AddProductItem-i1'' None 0
     = (Inl (new_Error (''Failed to get or create subscription '' @ ''emmett-cmd-AddProductItem-i1'' @
                        '': '' @ ''UNAVAILABLE'')), Suc 0) \<and>
   (\<exists>detail.
      getOrCreateSubscription
        (rejecting_client (new_Error ''UNAVAILABLE'') (JsError False ''PERMISSION_DENIED'' (Some 7)) False)
        ''emmett-cmd-AddProductItem'' ''emmett-cmd-AddProductItem-i1'' None 0
        = (Inl (new_Error (''Failed to get or create subscription '' @
                           ''emmett-cmd-AddProductItem-i1'' @ '': '' @ detail)), Suc (Suc 0)))"
proof -
  let ?ok = "rejecting_client (new_Error ''UNAVAILABLE'') (JsError False ''ALREADY_EXISTS'' (Some 6)) False"
  let ?ex = "rejecting_client (new_Error ''UNAVAILABLE'') (JsError False ''ALREADY_EXISTS'' (Some 6)) True"
  let ?no = "rejecting_client (new_Error ''UNAVAILABLE'') (JsError False ''PERMISSION_DENIED'' (Some 7)) False"
  let ?t = "''emmett-cmd-AddProductItem''"
  let ?s = "''emmett-cmd-AddProductItem-i1''"
  have h1: "topic_exists ?ok ?t 0 = (Inr False, Suc 0) \<and>
      topic_create ?ok ?t (Suc 0) = (Some (JsError False ''ALREADY_EXISTS'' (Some 6)), Suc (Suc 0)) \<and>
      error_code (JsError False ''ALREADY_EXISTS'' (Some 6)) = Inr (Some 6)"
    by (simp add: rejecting_client_def)
  have h2: "topic_exists ?ex ?t 0 = (Inl (new_Error ''UNAVAILABLE''), Suc 0)"
    by (simp add: rejecting_client_def)
  have h3: "topic_exists ?no ?t 0 = (Inr False, Suc 0) \<and>
      topic_create ?no ?t (Suc 0) = (Some (JsError False ''PERMISSION_DENIED'' (Some 7)), Suc (Suc 0)) \<and>
      error_code (JsError False ''PERMISSION_DENIED'' (Some 7)) \<noteq> Inr (Some 6)"
    by (simp add: rejecting_client_def)
  have h5: "subscription_exists ?ok ?t ?s 0 = (Inr False, Suc 0) \<and>
      subscription_create ?ok ?t ?s (subscription_config None) (Suc 0)
        = (Some (JsError False ''ALREADY_EXISTS'' (Some 6)), Suc (Suc 0)) \<and>
      error_code (JsError False ''ALREADY_EXISTS'' (Some 6)) = Inr (Some 6)"
    by (simp add: rejecting_client_def)
  have h6: "subscription_exists ?ex ?t ?s 0 = (Inl (new_Error ''UNAVAILABLE''), Suc 0)"
    by (simp add: rejecting_client_def)
  have h7: "subscription_exists ?no ?t ?s 0 = (Inr False, Suc 0) \<and>
      subscription_create ?no ?t ?s (subscription_config None) (Suc 0)
        = (Some (JsError False ''PERMISSION_DENIED'' (Some 7)), Suc (Suc 0)) \<and>
      error_code (JsError False ''PERMISSION_DENIED'' (Some 7)) \<noteq> Inr (Some 6)"
    by (simp add: rejecting_client_def)
  have e: "error_text (new_Error ''UNAVAILABLE'') = ''UNAVAILABLE''"
    by (simp add: new_Error_def)
  note g1 = C8_only_already_exists_swallowed [where pubsub = ?ok and name = ?t,
      THEN conjunct1, THEN mp, OF h1]
  note g2 = C8_only_already_exists_swallowed [where pubsub = ?ex and name = ?t,
      THEN conjunct2, THEN conjunct1, THEN mp, OF h2, unfolded e]
  note g3 = C8_only_already_exists_swallowed [where pubsub = ?no and name = ?t,
      THEN conjunct2, THEN conjunct2, THEN conjunct1, THEN mp, OF h3]
  note g5 = C8_only_already_exists_swallowed [where pubsub = ?ok and topic = ?t and sname = ?s,
      THEN conjunct2, THEN conjunct2, THEN conjunct2, THEN conjunct2, THEN conjunct1, THEN mp, OF h5]
  note g6 = C8_only_already_exists_swallowed [where pubsub = ?ex and topic = ?t and sname = ?s,
      THEN conjunct2, THEN conjunct2, THEN conjunct2, THEN conjunct2, THEN conjunct2,
      THEN conjunct1, THEN mp, OF h6, unfolded e]
  note g7 = C8_only_already_exists_swallowed [where pubsub = ?no and topic = ?t and sname = ?s,
      THEN conjunct2, THEN conjunct2, THEN conjunct2, THEN conjunct2, THEN conjunct2,
      THEN conjunct2, THEN conjunct1, THEN mp, OF h7]
  show ?thesis
    by (intro conjI g1 g2 g3 g5 g6 g7)
qed

section \<open>Properties of the bus\<close>

lemma handle_duplicate:
  "commandType \<in> set commandTypeNames \<and> handlers bus commandType \<noteq> None \<longrightarrow>
     (\<exists>msg bus'. handle h commandTypeNames bus = (Some (new_EmmettError msg), bus') \<and>
                instanceof_EmmettError (new_EmmettError msg) \<and>
                started bus' = started bus \<and>
                handlers bus' commandType = handlers bus commandType)"
proof (induction commandTypeNames arbitrary: bus)
  case Nil
  then show ?case by simp
next
  case (Cons c rest)
  show ?case
  proof (intro impI)
    assume prems: "commandType \<in> set (c # rest) \<and> handlers bus commandType \<noteq> None"
    show "\<exists>msg bus'. handle h (c # rest) bus = (Some (new_EmmettError msg), bus') \<and>
                instanceof_EmmettError (new_EmmettError msg) \<and>
                started bus' = started bus \<and>
                handlers bus' commandType = handlers bus commandType"
    proof (cases "handlers bus c \<noteq> None")
      case True
      let ?msg = "''Handler already registered for command '' @ c @ ''. '' @
                  ''Commands must have exactly one handler.''"
      from True have "handle h (c # rest) bus = (Some (new_EmmettError ?msg), bus)" by simp
      moreover have "instanceof_EmmettError (new_EmmettError ?msg)"
        by (simp add: new_EmmettError_def)
      ultimately show ?thesis by blast
    next
      case False
      with prems have ne: "c \<noteq> commandType" and mem: "commandType \<in> set rest" by auto
      define bus3 where "bus3 =
         (if started bus
          then bus\<lparr> commandTypes := insert c (commandTypes bus),
                    handlers := (handlers bus)(c \<mapsto> [h]),
                    detached := detached bus @ [(c, Command, None)] \<rparr>
          else bus\<lparr> commandTypes := insert c (commandTypes bus),
                    handlers := (handlers bus)(c \<mapsto> [h]) \<rparr>)"
      have step: "handle h (c # rest) bus = handle h rest bus3"
        using False by (simp add: bus3_def Let_def)
      have same: "handlers bus3 commandType = handlers bus commandType"
        using ne by (simp add: bus3_def)
      have st: "started bus3 = started bus" by (simp add: bus3_def)
      from prems same mem have "commandType \<in> set rest \<and> handlers bus3 commandType \<noteq> None"
        by simp
      with Cons.IH [of bus3] obtain msg bus' where
        r: "handle h rest bus3 = (Some (new_EmmettError msg), bus')"
        and e: "instanceof_EmmettError (new_EmmettError msg)"
        and s: "started bus' = started bus3"
        and k: "handlers bus' commandType = handlers bus3 commandType"
        by blast
      have r': "handle h (c # rest) bus = (Some (new_EmmettError msg), bus')"
        unfolding step by (rule r)
      have s': "started bus' = started bus" unfolding s by (rule st)
      have k': "handlers bus' commandType = handlers bus commandType"
        unfolding k by (rule same)
      from r' e s' k' show ?thesis by blast
    qed
  qed
qed

lemma handle_started: "started (snd (handle h commandTypeNames bus)) = started bus"
  by (induction commandTypeNames arbitrary: bus) (auto simp: Let_def)

lemma subscribe_never_throws: "fst (subscribe uuid h eventTypeNames bus) = None"
  by (induction eventTypeNames arbitrary: bus) (auto simp: Let_def)

lemma subscribe_commandTypes:
  "commandTypes (snd (subscribe uuid h eventTypeNames bus)) = commandTypes bus"
  by (induction eventTypeNames arbitrary: bus) (auto simp: Let_def)

lemma subscribe_one_handlers:
  "handlers (snd (subscribe uuid h [eventType] bus)) =
     (handlers bus)(eventType \<mapsto> (case handlers bus eventType of Some hs \<Rightarrow> hs | None \<Rightarrow> []) @ [h])"
  by (simp add: Let_def)

lemma handle_one_fresh:
  "handlers bus commandType = None \<Longrightarrow>
     fst (handle h [commandType] bus) = None \<and>
     handlers (snd (handle h [commandType] bus)) = (handlers bus)(commandType \<mapsto> [h])"
  by (simp add: Let_def)

lemma handle_one_duplicate:
  "handlers bus commandType \<noteq> None \<Longrightarrow>
     handle h [commandType] bus =
        (Some (new_EmmettError (''Handler already registered for command '' @ commandType @ ''. '' @
                                ''Commands must have exactly one handler.'')), bus)"
  by simp

text \<open>
  C6. For every state of the bus, started or not: if a type among the names given to
  \<open>handle\<close> already has an entry in \<open>handlers\<close>, the call throws an \<open>EmmettError\<close>,
  \<open>started\<close> is what it was, and the entry of that type is what it was; when the type is
  the only name given, the whole state is what it was.
\<close>

theorem C6_duplicate_command_handler:
  "(commandType \<in> set commandTypeNames \<and> handlers bus commandType \<noteq> None \<longrightarrow>
      (\<exists>msg bus'. handle h commandTypeNames bus = (Some (new_EmmettError msg), bus') \<and>
                 instanceof_EmmettError (new_EmmettError msg) \<and>
                 started bus' = started bus \<and>
                 handlers bus' commandType = handlers bus commandType)) \<and>
   (handlers bus commandType \<noteq> None \<longrightarrow>
      handle h [commandType] bus =
        (Some (new_EmmettError (''Handler already registered for command '' @ commandType @ ''. '' @
                                ''Commands must have exactly one handler.'')), bus))"
proof (rule conjI)
  show "commandType \<in> set commandTypeNames \<and> handlers bus commandType \<noteq> None \<longrightarrow>
      (\<exists>msg bus'. handle h commandTypeNames bus = (Some (new_EmmettError msg), bus') \<and>
                 instanceof_EmmettError (new_EmmettError msg) \<and>
                 started bus' = started bus \<and>
                 handlers bus' commandType = handlers bus commandType)"
    by (rule handle_duplicate)
next
  show "handlers bus commandType \<noteq> None \<longrightarrow>
      handle h [commandType] bus =
        (Some (new_EmmettError (''Handler already registered for command '' @ commandType @ ''. '' @
                                ''Commands must have exactly one handler.'')), bus)"
    by (rule impI) (rule handle_one_duplicate)
qed

theorem C6_duplicate_command_handler_witness:
  "handlers (snd (handle (1::nat) [''AddProductItem''] getPubSubMessageBus)) ''AddProductItem''
     = Some [1] \<and>
   \<not> started (snd (handle (1::nat) [''AddProductItem''] getPubSubMessageBus)) \<and>
   handle 2 [''AddProductItem''] (snd (handle (1::nat) [''AddProductItem''] getPubSubMessageBus))
     = (Some (new_EmmettError (''Handler already registered for command '' @ ''AddProductItem'' @
                               ''. '' @ ''Commands must have exactly one handler.'')),
        snd (handle (1::nat) [''AddProductItem''] getPubSubMessageBus)) \<and>
   started ((snd (handle (1::nat) [''AddProductItem''] getPubSubMessageBus))\<lparr> started := True \<rparr>) \<and>
   (\<exists>msg bus'.
      handle 2 [''RemoveProductItem'', ''AddProductItem'']
        ((snd (handle (1::nat) [''AddProductItem''] getPubSubMessageBus))\<lparr> started := True \<rparr>)
        = (Some (new_EmmettError msg), bus') \<and>
      handlers bus' ''AddProductItem'' = Some [1])"
proof -
  let ?b1 = "snd (handle (1::nat) [''AddProductItem''] getPubSubMessageBus)"
  let ?b2 = "?b1\<lparr> started := True \<rparr>"
  have h1: "handlers ?b1 ''AddProductItem'' = Some [1]"
    by code_simp
  have n1: "\<not> started ?b1" by code_simp
  have h1': "handlers ?b1 ''AddProductItem'' \<noteq> None" using h1 by simp
  have h2: "''AddProductItem'' \<in> set [''RemoveProductItem'', ''AddProductItem''] \<and>
     handlers ?b2 ''AddProductItem'' \<noteq> None"
    by code_simp
  have h2': "handlers ?b2 ''AddProductItem'' = Some [1]" by code_simp
  note g1 = C6_duplicate_command_handler [where bus = ?b1 and commandType = "''AddProductItem''"
      and h = 2, THEN conjunct2, THEN mp, OF h1']
  from C6_duplicate_command_handler [where bus = ?b2 and commandType = "''AddProductItem''"
      and h = 2 and commandTypeNames = "[''RemoveProductItem'', ''AddProductItem'']",
      THEN conjunct1, THEN mp, OF h2] h2'
  have g2: "\<exists>msg bus'.
      handle 2 [''RemoveProductItem'', ''AddProductItem''] ?b2 = (Some (new_EmmettError msg), bus') \<and>
      handlers bus' ''AddProductItem'' = Some [1]"
    by metis
  have s2: "started ?b2" by code_simp
  show ?thesis
    by (intro conjI h1 n1 g1 s2 g2)
qed

text \<open>
  C7. While the bus is not started, \<open>send\<close> and \<open>publish\<close> fail with the
  "not started" error, whatever the client is, and hand back the remote state they were
  given: no call of the client has been made.
\<close>

theorem C7_not_started_precondition:
  "\<not> started bus \<longrightarrow>
     send api pubsub config now uuid bus m r =
       (Some (new_Error
          ''Message bus is not started. Call start() before sending/publishing messages.''), r) \<and>
     publish api pubsub config now uuid bus m r =
       (Some (new_Error
          ''Message bus is not started. Call start() before sending/publishing messages.''), r)"
  by (simp add: send_def publish_def publishMessage_def ensureStarted_def)

theorem C7_not_started_precondition_witness:
  "\<not> started (getPubSubMessageBus :: nat message_bus) \<and>
   send iso_table recording_client
     \<lparr> instanceId = ''i1'', topicPrefix = ''emmett'', autoCreateResources = True \<rparr>
     0 ''0b7e'' (getPubSubMessageBus :: nat message_bus) reminder []
     = (Some (new_Error
          ''Message bus is not started. Call start() before sending/publishing messages.''), []) \<and>
   publish iso_table recording_client
     \<lparr> instanceId = ''i1'', topicPrefix = ''emmett'', autoCreateResources = True \<rparr>
     0 ''0b7e'' (getPubSubMessageBus :: nat message_bus) reminder []
     = (Some (new_Error
          ''Message bus is not started. Call start() before sending/publishing messages.''), []) \<and>
   publish iso_table recording_client
     \<lparr> instanceId = ''i1'', topicPrefix = ''emmett'', autoCreateResources = True \<rparr>
     0 ''0b7e'' ((getPubSubMessageBus :: nat message_bus)\<lparr> started := True \<rparr>) reminder []
     = (None, [''topic.exists emmett-evt-Reminder'', ''topic.create emmett-evt-Reminder'',
               ''topic.publishMessage emmett-evt-Reminder''])"
proof -
  have n: "\<not> started (getPubSubMessageBus :: nat message_bus)"
    by code_simp
  note g = C7_not_started_precondition [where bus = "getPubSubMessageBus :: nat message_bus"
      and pubsub = recording_client and r = "[]", THEN mp, OF n]
  have p: "publish iso_table recording_client
     \<lparr> instanceId = ''i1'', topicPrefix = ''emmett'', autoCreateResources = True \<rparr>
     0 ''0b7e'' ((getPubSubMessageBus :: nat message_bus)\<lparr> started := True \<rparr>) reminder []
     = (None, [''topic.exists emmett-evt-Reminder'', ''topic.create emmett-evt-Reminder'',
               ''topic.publishMessage emmett-evt-Reminder''])"
    by code_simp
  show ?thesis
    by (intro conjI n g [THEN conjunct1] g [THEN conjunct2] p)
qed

text \<open>
  C9. \<open>handle\<close> and \<open>subscribe\<close> write to the same \<open>handlers\<close> map. After
  \<open>subscribe(ha, T)\<close>, which leaves \<open>commandTypes\<close> as it was, \<open>handle(hb, T)\<close> throws
  the duplicate-command-handler \<open>EmmettError\<close>. \<open>subscribe\<close> never throws; from a state
  in which \<open>T\<close> has no entry, \<open>handle(ha, T)\<close> followed by \<open>subscribe(hb, T)\<close> leaves
  the list \<open>[ha, hb]\<close>, of length 2, under \<open>T\<close>.
\<close>

theorem C9_shared_handlers_map:
  "fst (handle hb [T] (snd (subscribe uuid ha [T] bus))) =
     Some (new_EmmettError (''Handler already registered for command '' @ T @ ''. '' @
                            ''Commands must have exactly one handler.'')) \<and>
   commandTypes (snd (subscribe uuid ha [T] bus)) = commandTypes bus \<and>
   fst (subscribe uuid h eventTypeNames bus) = None \<and>
   (handlers bus T = None \<longrightarrow>
      fst (handle ha [T] bus) = None \<and>
      handlers (snd (subscribe uuid hb [T] (snd (handle ha [T] bus)))) T = Some [ha, hb] \<and>
      length [ha, hb] = 2)"
proof (intro conjI impI)
  have "handlers (snd (subscribe uuid ha [T] bus)) T \<noteq> None"
    unfolding subscribe_one_handlers by simp
  from handle_one_duplicate [OF this, of hb]
  show "fst (handle hb [T] (snd (subscribe uuid ha [T] bus))) =
     Some (new_EmmettError (''Handler already registered for command '' @ T @ ''. '' @
                            ''Commands must have exactly one handler.''))"
    by simp
next
  show "commandTypes (snd (subscribe uuid ha [T] bus)) = commandTypes bus"
    by (rule subscribe_commandTypes)
next
  show "fst (subscribe uuid h eventTypeNames bus) = None"
    by (rule subscribe_never_throws)
next
  assume "handlers bus T = None"
  from handle_one_fresh [OF this] show "fst (handle ha [T] bus) = None" by blast
next
  assume "handlers bus T = None"
  from handle_one_fresh [OF this, of ha]
  have "handlers (snd (handle ha [T] bus)) T = Some [ha]" by simp
  then show "handlers (snd (subscribe uuid hb [T] (snd (handle ha [T] bus)))) T = Some [ha, hb]"
    unfolding subscribe_one_handlers by simp
next
  show "length [ha, hb] = 2" by simp
qed

theorem C9_shared_handlers_map_witness:
  "handlers (getPubSubMessageBus :: nat message_bus) ''ProductItemAdded'' = None \<and>
   fst (handle 2 [''ProductItemAdded'']
          (snd (subscribe (\<lambda>n. replicate (Suc n) CHR ''u'') (1::nat) [''ProductItemAdded'']
                  getPubSubMessageBus)))
     = Some (new_EmmettError (''Handler already registered for command '' @ ''ProductItemAdded'' @
                              ''. '' @ ''Commands must have exactly one handler.'')) \<and>
   commandTypes (snd (subscribe (\<lambda>n. replicate (Suc n) CHR ''u'') (1::nat) [''ProductItemAdded'']
                        getPubSubMessageBus)) = {} \<and>
   handlers (snd (subscribe (\<lambda>n. replicate (Suc n) CHR ''u'') 2 [''ProductItemAdded'']
                    (snd (handle (1::nat) [''ProductItemAdded''] getPubSubMessageBus))))
     ''ProductItemAdded'' = Some [1, 2]"
proof -
  let ?u = "\<lambda>n. replicate (Suc n) CHR ''u''"
  let ?T = "''ProductItemAdded''"
  have h: "handlers (getPubSubMessageBus :: nat message_bus) ?T = None"
    by code_simp
  note c = C9_shared_handlers_map [where bus = "getPubSubMessageBus :: nat message_bus"
      and T = ?T and uuid = ?u and ha = 1 and hb = 2]
  have c0: "commandTypes (getPubSubMessageBus :: nat message_bus) = {}"
    unfolding getPubSubMessageBus_def by simp
  note g1 = c [THEN conjunct1]
  note g2 = c [THEN conjunct2, THEN conjunct1, unfolded c0]
  note g3 = c [THEN conjunct2, THEN conjunct2, THEN conjunct2, THEN mp, OF h,
      THEN conjunct2, THEN conjunct1]
  show ?thesis
    by (intro conjI h g1 g2 g3)
qed

end
